theory Spec2Isabelle
  imports Main "HOL-Library.Char_ord" "HOL-Library.List_Lexorder"
begin

section \<open>django-tom-select: the cache-mediated AJAX search of the Heavy and Model widgets\<close>

text \<open>
  The development embeds \<^verbatim>\<open>django_tom_select/forms.py\<close>: the classes
  \<^verbatim>\<open>HeavyTomSelectMixin\<close> (construction, \<^verbatim>\<open>get_url\<close>, \<^verbatim>\<open>render\<close>,
  \<^verbatim>\<open>_get_cache_key\<close>, \<^verbatim>\<open>set_to_cache\<close>) and \<^verbatim>\<open>ModelTomSelectMixin\<close>
  (construction, \<^verbatim>\<open>set_to_cache\<close>, \<^verbatim>\<open>filter_queryset\<close>, \<^verbatim>\<open>get_queryset\<close>,
  \<^verbatim>\<open>get_search_fields\<close>). The parts of Django the code calls (\<^verbatim>\<open>Q\<close> objects,
  \<^verbatim>\<open>QuerySet\<close>, the cache, \<^verbatim>\<open>uuid4\<close>, \<^verbatim>\<open>signing.dumps\<close>,
  \<^verbatim>\<open>reverse\<close>, \<^verbatim>\<open>lookup_spawns_duplicates\<close>) are modelled as far as the code
  uses them, or taken as parameters.

  A Python \<^verbatim>\<open>str\<close> is a \<^typ>\<open>string\<close>; the model covers the code points below 256.
\<close>

subsection \<open>Python values and exceptions\<close>

text \<open>
  A value given to a field lookup: the search term and its tokens are \<^verbatim>\<open>str\<close>; a
  dependent-field value is whatever the caller passes as keyword argument.
\<close>

datatype 'a val = Str string | Other 'a

text \<open>The exceptions the code raises, with their messages.\<close>

datatype error =
    ValueError string
  | NotImplementedError string
  | TypeError string
  | AttributeError string
  | PicklingError string
  | NoReverseMatch string

subsection \<open>\<^verbatim>\<open>str.split()\<close>\<close>

text \<open>
  \<^verbatim>\<open>str.isspace\<close> on the code points below 256: the characters 9 to 13, 28 to 32,
  133 and 160.
\<close>

definition isspace :: "char \<Rightarrow> bool" where
  "isspace c = (of_char c \<in> {9, 10, 11, 12, 13, 28, 29, 30, 31, 32, 133, 160 :: nat})"

text \<open>
  \<^verbatim>\<open>term.split()\<close> without a separator: the maximal runs of characters that are not
  whitespace, in order; \<open>cur\<close> is the run read so far.
\<close>

fun split_from :: "string \<Rightarrow> string \<Rightarrow> string list" where
  "split_from cur [] = (if cur = [] then [] else [cur])"
| "split_from cur (c # cs) =
     (if isspace c then (if cur = [] then split_from [] cs else cur # split_from [] cs)
      else split_from (cur @ [c]) cs)"

definition split :: "string \<Rightarrow> string list" where
  "split s = split_from [] s"

subsection \<open>\<^verbatim>\<open>django.db.models.Q\<close>\<close>

text \<open>
  A \<^verbatim>\<open>Q\<close> object is a tree node with a connector and a list of children; a child is
  a pair of a lookup and a value, or another \<^verbatim>\<open>Q\<close>. The code never negates a
  \<^verbatim>\<open>Q\<close> and never uses the connector XOR, so the model has neither.
\<close>

datatype connector = AND | OR

datatype 'a Q = Lookup string "'a val" | Node connector "'a Q list"

definition Q_empty :: "'a Q" where
  \<comment> \<open>\<^verbatim>\<open>Q()\<close>\<close>
  "Q_empty = Node AND []"

definition Q_kwargs :: "(string \<times> 'a val) list \<Rightarrow> 'a Q" where
  \<comment> \<open>\<^verbatim>\<open>Q(**kwargs)\<close>: the children are \<^verbatim>\<open>sorted(kwargs.items())\<close>\<close>
  "Q_kwargs kwargs = Node AND (map (\<lambda>(k, v). Lookup k v) (sort_key fst kwargs))"

fun is_empty :: "'a Q \<Rightarrow> bool" where
  \<comment> \<open>\<^verbatim>\<open>not q\<close>: a node without children\<close>
  "is_empty (Node c qs) = (qs = [])"
| "is_empty (Lookup k v) = False"

fun children :: "'a Q \<Rightarrow> 'a Q list" where
  "children (Node c qs) = qs"
| "children (Lookup k v) = []"

fun squashable :: "connector \<Rightarrow> 'a Q \<Rightarrow> bool" where
  \<comment> \<open>\<^verbatim>\<open>data.connector == conn_type or len(data) == 1\<close>\<close>
  "squashable conn (Node c qs) = (c = conn \<or> length qs = 1)"
| "squashable conn (Lookup k v) = False"

definition add :: "'a Q list \<Rightarrow> 'a Q \<Rightarrow> connector \<Rightarrow> 'a Q list" where
  \<comment> \<open>\<^verbatim>\<open>Node.add\<close> on a node that has the connector \<open>conn\<close> already: the children
      of \<open>data\<close> are squashed into the node where that keeps the meaning\<close>
  "add cs data conn = (if squashable conn data then cs @ children data else cs @ [data])"

definition combine :: "'a Q \<Rightarrow> 'a Q \<Rightarrow> connector \<Rightarrow> 'a Q" where
  \<comment> \<open>\<^verbatim>\<open>Q._combine\<close>: an empty operand is dropped\<close>
  "combine self other conn =
     (if is_empty self then other
      else if is_empty other then self
      else Node conn (add (add [] self conn) other conn))"

text \<open>\<^verbatim>\<open>operator.or_\<close> and \<^verbatim>\<open>&=\<close> on \<^verbatim>\<open>Q\<close> objects.\<close>

definition q_or :: "'a Q \<Rightarrow> 'a Q \<Rightarrow> 'a Q" where
  "q_or a b = combine a b OR"

definition q_and :: "'a Q \<Rightarrow> 'a Q \<Rightarrow> 'a Q" where
  "q_and a b = combine a b AND"

text \<open>
  What a \<^verbatim>\<open>Q\<close> means as the condition of one \<^verbatim>\<open>filter()\<close> call. The database
  evaluates the condition on a joined row \<open>j\<close>: a row of the model together with one
  related row for each relation that the lookups of the call follow. All lookups of the
  call are evaluated on the same joined row. \<open>matches k v j\<close> says that the joined
  row \<open>j\<close> satisfies the lookup \<open>k\<close> with the value \<open>v\<close>; it is the database's part
  and a parameter.
\<close>

fun holds :: "(string \<Rightarrow> 'a val \<Rightarrow> 'j \<Rightarrow> bool) \<Rightarrow> 'a Q \<Rightarrow> 'j \<Rightarrow> bool" where
  "holds matches (Lookup k v) j = matches k v j"
| "holds matches (Node AND qs) j = (\<forall>q \<in> set qs. holds matches q j)"
| "holds matches (Node OR qs) j = (\<exists>q \<in> set qs. holds matches q j)"

text \<open>The lookups a \<^verbatim>\<open>Q\<close> refers to; they decide which relations the database joins.\<close>

fun lookup_names :: "'a Q \<Rightarrow> string list" where
  "lookup_names (Lookup k v) = [k]"
| "lookup_names (Node c qs) = concat (map lookup_names qs)"

text \<open>\<^verbatim>\<open>functools.reduce\<close> without an initial value.\<close>

fun reduce :: "('b \<Rightarrow> 'b \<Rightarrow> 'b) \<Rightarrow> 'b list \<Rightarrow> error + 'b" where
  "reduce f [] = Inl (TypeError ''reduce() of empty iterable with no initial value'')"
| "reduce f (x # xs) = Inr (foldl f x xs)"

subsection \<open>\<^verbatim>\<open>QuerySet\<close>\<close>

text \<open>
  A \<^verbatim>\<open>QuerySet\<close> holds a query (the definition: model, filter clauses, the distinct
  flag, the mark of \<^verbatim>\<open>none()\<close>) and, once it has been evaluated, the rows it fetched.
\<close>

record ('m, 'a) Query =
  q_model :: 'm
  q_where :: "'a Q list"
  q_distinct :: bool
  q_nothing :: bool

record ('m, 'a, 'r) QuerySet =
  query :: "('m, 'a) Query"
  result_cache :: "'r list option"

definition filter_qs :: "('m, 'a, 'r) QuerySet \<Rightarrow> 'a Q \<Rightarrow> ('m, 'a, 'r) QuerySet" where
  \<comment> \<open>\<^verbatim>\<open>queryset.filter(q)\<close>: a new, unevaluated queryset with one more clause\<close>
  "filter_qs qs q =
     \<lparr>query = (query qs)\<lparr>q_where := q_where (query qs) @ [q]\<rparr>, result_cache = None\<rparr>"

definition distinct_qs :: "('m, 'a, 'r) QuerySet \<Rightarrow> ('m, 'a, 'r) QuerySet" where
  \<comment> \<open>\<^verbatim>\<open>queryset.distinct()\<close>\<close>
  "distinct_qs qs = \<lparr>query = (query qs)\<lparr>q_distinct := True\<rparr>, result_cache = None\<rparr>"

definition none_qs :: "('m, 'a, 'r) QuerySet \<Rightarrow> ('m, 'a, 'r) QuerySet" where
  \<comment> \<open>\<^verbatim>\<open>queryset.none()\<close>\<close>
  "none_qs qs = \<lparr>query = (query qs)\<lparr>q_nothing := True\<rparr>, result_cache = None\<rparr>"

definition all_qs :: "'m \<Rightarrow> ('m, 'a, 'r) QuerySet" where
  \<comment> \<open>\<^verbatim>\<open>model._default_manager.all()\<close>\<close>
  "all_qs m =
     \<lparr>query = \<lparr>q_model = m, q_where = [], q_distinct = False, q_nothing = False\<rparr>,
      result_cache = None\<rparr>"

text \<open>
  Running a query. \<open>db m\<close> is the list of the rows of the model \<open>m\<close>. For one
  \<^verbatim>\<open>filter()\<close> call with the condition \<open>c\<close>, \<open>joined m ks r\<close> is the list of the joined
  rows the database forms for the row \<open>r\<close> when the lookups \<open>ks\<close> of the call are
  followed (one joined row where no lookup follows a multi-valued relation, one for
  each combination of related rows otherwise); the row \<open>r\<close> comes once for each of its
  joined rows that satisfies the condition. Each \<^verbatim>\<open>filter()\<close> call joins on its own.
  An empty \<^verbatim>\<open>Q()\<close> adds no condition and no join. The distinct flag removes the
  repetitions from the result.
\<close>

definition select_rows ::
  "('m \<Rightarrow> string set \<Rightarrow> 'r \<Rightarrow> 'j list) \<Rightarrow> (string \<Rightarrow> 'a val \<Rightarrow> 'j \<Rightarrow> bool) \<Rightarrow> 'm \<Rightarrow> 'a Q \<Rightarrow>
   'r list \<Rightarrow> 'r list" where
  "select_rows joined matches m c rs =
     (if is_empty c then rs
      else concat (map (\<lambda>r. map (\<lambda>j. r)
                     (filter (holds matches c) (joined m (set (lookup_names c)) r))) rs))"

definition execute ::
  "('m \<Rightarrow> 'r list) \<Rightarrow> ('m \<Rightarrow> string set \<Rightarrow> 'r \<Rightarrow> 'j list) \<Rightarrow> (string \<Rightarrow> 'a val \<Rightarrow> 'j \<Rightarrow> bool) \<Rightarrow>
   ('m, 'a) Query \<Rightarrow> 'r list" where
  "execute db joined matches q =
     (if q_nothing q then []
      else let rs = foldl (\<lambda>rs c. select_rows joined matches (q_model q) c rs)
                      (db (q_model q)) (q_where q)
           in if q_distinct q then remdups rs else rs)"

text \<open>The rows of a queryset: those it has fetched already, or else those of its query.\<close>

definition rows ::
  "('m \<Rightarrow> 'r list) \<Rightarrow> ('m \<Rightarrow> string set \<Rightarrow> 'r \<Rightarrow> 'j list) \<Rightarrow> (string \<Rightarrow> 'a val \<Rightarrow> 'j \<Rightarrow> bool) \<Rightarrow>
   ('m, 'a, 'r) QuerySet \<Rightarrow> 'r list" where
  "rows db joined matches qs =
     (case result_cache qs of
        Some rs \<Rightarrow> rs
      | None \<Rightarrow> execute db joined matches (query qs))"

text \<open>
  \<^verbatim>\<open>QuerySet._fetch_all\<close>: a queryset that has not been evaluated runs its query and
  keeps the rows. Serialising a queryset with \<^verbatim>\<open>pickle\<close> does this first.
\<close>

definition fetch_all ::
  "('m \<Rightarrow> 'r list) \<Rightarrow> ('m \<Rightarrow> string set \<Rightarrow> 'r \<Rightarrow> 'j list) \<Rightarrow> (string \<Rightarrow> 'a val \<Rightarrow> 'j \<Rightarrow> bool) \<Rightarrow>
   ('m, 'a, 'r) QuerySet \<Rightarrow> ('m, 'a, 'r) QuerySet" where
  "fetch_all db joined matches qs = qs\<lparr>result_cache := Some (rows db joined matches qs)\<rparr>"

subsection \<open>The widget\<close>

text \<open>
  A class with \<^verbatim>\<open>HeavyTomSelectMixin\<close> only has that mixin's \<^verbatim>\<open>set_to_cache\<close>; a class
  with \<^verbatim>\<open>ModelTomSelectMixin\<close> in front of it has the overriding one.
\<close>

datatype kind = Heavy | Model

text \<open>
  The attributes of a Heavy or Model widget that the code reads. An attribute that can
  be Python's \<^verbatim>\<open>None\<close> is an option. \<open>choices_queryset\<close> is \<open>None\<close> where
  \<^verbatim>\<open>hasattr(self.choices, "queryset")\<close> is false, and \<open>Some v\<close> where the choices have
  the attribute, with its value \<open>v\<close> (a queryset, or \<^verbatim>\<open>None\<close> as for a model choice
  field made with \<^verbatim>\<open>queryset=None\<close>). \<open>picklable\<close> says whether \<^verbatim>\<open>pickle\<close> can
  serialise what the widget hands to the cache.
\<close>

record ('m, 'a, 'r) widget =
  cls_name :: string
  kind :: kind
  uuid :: string
  field_id :: string
  data_view :: "string option"
  data_url :: "string option"
  dependent_fields :: "(string \<times> string) list"
  userGetValTextFuncName :: string
  picklable :: bool
  model :: "'m option"
  queryset :: "('m, 'a, 'r) QuerySet option"
  choices_queryset :: "('m, 'a, 'r) QuerySet option option"
  search_fields :: "string list"
  max_results :: int

subsection \<open>\<^verbatim>\<open>ModelTomSelectMixin\<close>: the search engine\<close>

text \<open>
  \<^verbatim>\<open>get_queryset\<close> returns what it finds: the result is a queryset, or \<^verbatim>\<open>None\<close> when
  the choices have a \<^verbatim>\<open>queryset\<close> attribute that is \<^verbatim>\<open>None\<close>.
\<close>

definition get_queryset :: "('m, 'a, 'r) widget \<Rightarrow> error + ('m, 'a, 'r) QuerySet option" where
  "get_queryset self =
     (case queryset self of
        Some qs \<Rightarrow> Inr (Some qs)
      | None \<Rightarrow>
          (case choices_queryset self of
             Some v \<Rightarrow> Inr v
           | None \<Rightarrow>
               (case model self of
                  Some m \<Rightarrow> Inr (Some (all_qs m))
                | None \<Rightarrow>
                    Inl (NotImplementedError
                      (cls_name self @ '' is missing a QuerySet. Define '' @
                       cls_name self @ ''.model, '' @ cls_name self @ ''.queryset, or override '' @
                       cls_name self @ ''.get_queryset().'')))))"

definition get_search_fields :: "('m, 'a, 'r) widget \<Rightarrow> error + string list" where
  "get_search_fields self =
     (if search_fields self \<noteq> [] then Inr (search_fields self)
      else Inl (NotImplementedError
        (cls_name self @ '', must implement '' @ [CHR 0x22] @ ''search_fields'' @ [CHR 0x22] @ ''.'')))"

definition or_queries :: "string list \<Rightarrow> string \<Rightarrow> 'a Q list" where
  \<comment> \<open>\<^verbatim>\<open>[Q(**{orm_lookup: bit}) for orm_lookup in search_fields]\<close>; the source's \<open>bit\<close> is \<open>tok\<close> here\<close>
  "or_queries lookups tok = map (\<lambda>orm_lookup. Q_kwargs [(orm_lookup, Str tok)]) lookups"

text \<open>The loop over \<^verbatim>\<open>term.split()\<close>: \<^verbatim>\<open>select &= reduce(operator.or_, or_queries)\<close>.\<close>

fun and_bits :: "string list \<Rightarrow> 'a Q \<Rightarrow> string list \<Rightarrow> error + 'a Q" where
  "and_bits lookups select [] = Inr select"
| "and_bits lookups select (tok # toks) =
     (case reduce q_or (or_queries lookups tok) of
        Inl e \<Rightarrow> Inl e
      | Inr q \<Rightarrow> and_bits lookups (q_and select q) toks)"

text \<open>
  The block under \<^verbatim>\<open>if search_fields and term\<close>: it returns the new \<^verbatim>\<open>select\<close> and
  the new \<^verbatim>\<open>use_distinct\<close>. \<open>spawns\<close> is \<^verbatim>\<open>lookup_spawns_duplicates\<close>, applied to
  the options of the queryset's model.
\<close>

definition search_block ::
  "('m \<Rightarrow> string \<Rightarrow> bool) \<Rightarrow> 'm \<Rightarrow> string list \<Rightarrow> string \<Rightarrow> 'a Q \<Rightarrow> bool \<Rightarrow> error + ('a Q \<times> bool)" where
  "search_block spawns m lookups term select use_distinct =
     (case and_bits lookups select (split term) of
        Inl e \<Rightarrow> Inl e
      | Inr select1 \<Rightarrow>
          (case reduce q_or (or_queries lookups term) of
             Inl e \<Rightarrow> Inl e
           | Inr q \<Rightarrow> Inr (q_or select1 q, use_distinct \<or> (\<exists>search_spec \<in> set lookups. spawns m search_spec))))"

definition base_queryset ::
  "('m, 'a, 'r) widget \<Rightarrow> ('m, 'a, 'r) QuerySet option \<Rightarrow> error + ('m, 'a, 'r) QuerySet option" where
  \<comment> \<open>\<^verbatim>\<open>if queryset is None: queryset = self.get_queryset()\<close>\<close>
  "base_queryset self queryset_arg =
     (case queryset_arg of None \<Rightarrow> get_queryset self | Some qs \<Rightarrow> Inr (Some qs))"

definition none_has_no :: "string \<Rightarrow> error" where
  \<comment> \<open>reading the attribute \<open>name\<close> of \<^verbatim>\<open>None\<close>\<close>
  "none_has_no name =
     AttributeError ([CHR 0x27] @ ''NoneType'' @ [CHR 0x27] @ '' object has no attribute '' @
       [CHR 0x27] @ name @ [CHR 0x27])"

text \<open>
  \<^verbatim>\<open>filter_queryset(self, request, term, queryset=None, **dependent_fields)\<close>; the
  request is not read. Where the queryset is still \<^verbatim>\<open>None\<close> after the first step,
  the first attribute read from it raises \<^verbatim>\<open>AttributeError\<close>: that is
  \<^verbatim>\<open>queryset.model\<close> when a search field or a dependent field is checked for
  duplicates, and \<^verbatim>\<open>queryset.filter\<close> otherwise.
\<close>

definition filter_queryset ::
  "('m \<Rightarrow> string \<Rightarrow> bool) \<Rightarrow> ('m, 'a, 'r) widget \<Rightarrow> string \<Rightarrow> ('m, 'a, 'r) QuerySet option \<Rightarrow>
   (string \<times> 'a val) list \<Rightarrow> error + ('m, 'a, 'r) QuerySet" where
  "filter_queryset spawns self term queryset_arg dependent =
     (case base_queryset self queryset_arg of
        Inl e \<Rightarrow> Inl e
      | Inr base \<Rightarrow>
          (case get_search_fields self of
             Inl e \<Rightarrow> Inl e
           | Inr lookups \<Rightarrow>
               (case base of
                  None \<Rightarrow>
                    Inl (none_has_no
                      (if (lookups \<noteq> [] \<and> term \<noteq> []) \<or> dependent \<noteq> [] then ''model''
                       else ''filter''))
                | Some qs \<Rightarrow>
                    (case (if lookups \<noteq> [] \<and> term \<noteq> []
                           then search_block spawns (q_model (query qs)) lookups term Q_empty False
                           else Inr (Q_empty, False)) of
                       Inl e \<Rightarrow> Inl e
                     | Inr (select0, use_distinct0) \<Rightarrow>
                         (let select = (if dependent \<noteq> [] then q_and select0 (Q_kwargs dependent)
                                        else select0);
                              use_distinct = (use_distinct0 \<or>
                                (\<exists>search_spec \<in> set (map fst dependent).
                                   spawns (q_model (query qs)) search_spec))
                          in if use_distinct then Inr (distinct_qs (filter_qs qs select))
                             else Inr (filter_qs qs select))))))"

subsection \<open>Settings, the cache and the source of identifiers\<close>

text \<open>
  What the widgets read from their environment: the setting
  \<^verbatim>\<open>TOM_SELECT_CACHE_PREFIX\<close>, \<^verbatim>\<open>django.core.signing.dumps\<close> and
  \<^verbatim>\<open>django.urls.reverse\<close> (\<open>None\<close> where it raises \<^verbatim>\<open>NoReverseMatch\<close>).
\<close>

record env =
  TOM_SELECT_CACHE_PREFIX :: string
  signing_dumps :: "string \<Rightarrow> string"
  reverse :: "string \<Rightarrow> string option"

text \<open>
  What a Model widget hands to the cache (the dictionary of
  \<^verbatim>\<open>ModelTomSelectMixin.set_to_cache\<close>), and what a Heavy widget hands to it (the
  widget object and its URL).
\<close>

record ('m, 'a, 'r) descriptor =
  d_queryset :: "('m, 'a, 'r) QuerySet \<times> ('m, 'a) Query"
  d_cls :: string
  d_search_fields :: "string list"
  d_max_results :: int
  d_url :: string
  d_dependent_fields :: "(string \<times> string) list"

datatype ('m, 'a, 'r) entry =
    WidgetEntry "('m, 'a, 'r) widget" string
  | ModelEntry "('m, 'a, 'r) descriptor"

text \<open>
  The state outside the widget: the values \<^verbatim>\<open>uuid.uuid4()\<close> returns, one after the
  other, with the number of values drawn so far; the cache, as a map from a key to the
  value \<^verbatim>\<open>cache.get\<close> returns for it; the number of calls of \<^verbatim>\<open>cache.set\<close> so far; and
  the database (the rows of each model, the joined rows and the lookups, as in
  \<open>execute\<close>).
\<close>

record ('m, 'a, 'r, 'j) world =
  uuid_source :: "nat \<Rightarrow> string"
  uuid_drawn :: nat
  cache :: "string \<rightharpoonup> ('m, 'a, 'r) entry"
  cache_writes :: nat
  db_rows :: "'m \<Rightarrow> 'r list"
  db_joined :: "'m \<Rightarrow> string set \<Rightarrow> 'r \<Rightarrow> 'j list"
  db_matches :: "string \<Rightarrow> 'a val \<Rightarrow> 'j \<Rightarrow> bool"

definition uuid4 :: "('m, 'a, 'r, 'j) world \<Rightarrow> string \<times> ('m, 'a, 'r, 'j) world" where
  "uuid4 s = (uuid_source s (uuid_drawn s), s\<lparr>uuid_drawn := Suc (uuid_drawn s)\<rparr>)"

text \<open>
  The cache serialises a value with \<^verbatim>\<open>pickle\<close> when it stores it, and \<^verbatim>\<open>pickle\<close>
  evaluates every queryset in the value. So what the cache returns later is the value
  with its querysets fetched: in the dictionary of a Model widget the first component
  of \<^verbatim>\<open>"queryset"\<close> (the query object beside it is a definition and has no rows); in
  the object of a Heavy widget the queryset of its choices, if they have one.
  (\<^verbatim>\<open>pickle\<close> fetches the rows into the queryset object it is given, so the choices of
  the Heavy widget keep them; a later \<^verbatim>\<open>cache.set\<close> of the widget stores these rows
  again, which are the rows it fetches here, where no step changes the database.)
\<close>

fun pickled ::
  "('m \<Rightarrow> 'r list) \<Rightarrow> ('m \<Rightarrow> string set \<Rightarrow> 'r \<Rightarrow> 'j list) \<Rightarrow> (string \<Rightarrow> 'a val \<Rightarrow> 'j \<Rightarrow> bool) \<Rightarrow>
   ('m, 'a, 'r) entry \<Rightarrow> ('m, 'a, 'r) entry" where
  "pickled db joined matches (ModelEntry d) =
     ModelEntry (d\<lparr>d_queryset :=
       (fetch_all db joined matches (fst (d_queryset d)), snd (d_queryset d))\<rparr>)"
| "pickled db joined matches (WidgetEntry w url) =
     WidgetEntry (w\<lparr>choices_queryset :=
       map_option (map_option (fetch_all db joined matches)) (choices_queryset w)\<rparr>) url"

definition cache_set ::
  "string \<Rightarrow> ('m, 'a, 'r) entry \<Rightarrow> ('m, 'a, 'r, 'j) world \<Rightarrow> ('m, 'a, 'r, 'j) world" where
  "cache_set k v s =
     s\<lparr>cache := (cache s)(k \<mapsto> pickled (db_rows s) (db_joined s) (db_matches s) v),
       cache_writes := Suc (cache_writes s)\<rparr>"

subsection \<open>Construction\<close>

text \<open>
  The class attributes a widget class declares (with whether \<^verbatim>\<open>pickle\<close> can serialise
  what its instances hand to the cache), and the keyword arguments of a constructor call. A keyword that
  \<^verbatim>\<open>kwargs.pop(name, default)\<close> reads is \<open>None\<close> when it is not passed, and
  \<open>Some v\<close> when it is passed with the value \<open>v\<close> (which can be Python's
  \<^verbatim>\<open>None\<close>).
\<close>

record ('m, 'a, 'r) cls =
  c_name :: string
  c_kind :: kind
  c_picklable :: bool
  c_data_view :: "string option"
  c_data_url :: "string option"
  c_dependent_fields :: "(string \<times> string) list"
  c_model :: "'m option"
  c_queryset :: "('m, 'a, 'r) QuerySet option"
  c_search_fields :: "string list"
  c_max_results :: int

record ('m, 'a, 'r) kwargs =
  kw_data_view :: "string option option"
  kw_data_url :: "string option option"
  kw_dependent_fields :: "(string \<times> string) list option"
  kw_userGetValTextFuncName :: "string option"
  kw_model :: "'m option option"
  kw_queryset :: "('m, 'a, 'r) QuerySet option option"
  kw_search_fields :: "string list option"
  kw_max_results :: "int option"

definition pop :: "'b option \<Rightarrow> 'b \<Rightarrow> 'b" where
  \<comment> \<open>\<^verbatim>\<open>kwargs.pop(name, default)\<close>\<close>
  "pop passed dflt = (case passed of None \<Rightarrow> dflt | Some v \<Rightarrow> v)"

definition truthy :: "string option \<Rightarrow> bool" where
  \<comment> \<open>the truth value of an attribute that is \<^verbatim>\<open>None\<close> or a \<^verbatim>\<open>str\<close>\<close>
  "truthy x = (case x of None \<Rightarrow> False | Some v \<Rightarrow> v \<noteq> [])"

text \<open>
  \<^verbatim>\<open>HeavyTomSelectMixin.__init__\<close>. \<open>choices\<close> is the \<^verbatim>\<open>queryset\<close> attribute of the
  \<^verbatim>\<open>choices\<close> argument, if it has one. The identifier is drawn before the check of the URL, so the
  world has advanced also when the constructor raises.
\<close>

definition heavy_init ::
  "env \<Rightarrow> ('m, 'a, 'r) cls \<Rightarrow> ('m, 'a, 'r) QuerySet option option \<Rightarrow> ('m, 'a, 'r) kwargs \<Rightarrow>
   ('m, 'a, 'r, 'j) world \<Rightarrow> (error + ('m, 'a, 'r) widget) \<times> ('m, 'a, 'r, 'j) world" where
  "heavy_init e c choices kw s =
     (let (u, s1) = uuid4 s;
          view = pop (kw_data_view kw) (c_data_view c);
          url = pop (kw_data_url kw) (c_data_url c);
          dependent = (case kw_dependent_fields kw of
                         None \<Rightarrow> c_dependent_fields c
                       | Some d \<Rightarrow> d)
      in if \<not> (truthy view \<or> truthy url)
         then (Inl (ValueError (''You must either specify '' @ [CHR 0x22] @ ''data_view'' @
                 [CHR 0x22] @ '' or '' @ [CHR 0x22] @ ''data_url'' @ [CHR 0x22] @ ''.'')), s1)
         else (Inr \<lparr>cls_name = c_name c, kind = c_kind c, uuid = u,
                    field_id = signing_dumps e u, data_view = view, data_url = url,
                    dependent_fields = dependent,
                    userGetValTextFuncName = pop (kw_userGetValTextFuncName kw) ''null'',
                    picklable = c_picklable c, model = c_model c, queryset = c_queryset c,
                    choices_queryset = choices, search_fields = c_search_fields c,
                    max_results = c_max_results c\<rparr>, s1))"


subsection \<open>Rendering and the registration in the cache\<close>

definition get_url :: "env \<Rightarrow> ('m, 'a, 'r) widget \<Rightarrow> error + string" where
  "get_url e self =
     (if truthy (data_url self) then Inr (the (data_url self))
      else (case data_view self of
              None \<Rightarrow> Inl (NoReverseMatch ''None'')
            | Some v \<Rightarrow>
                (case reverse e v of None \<Rightarrow> Inl (NoReverseMatch v) | Some u \<Rightarrow> Inr u)))"

definition get_cache_key :: "env \<Rightarrow> ('m, 'a, 'r) widget \<Rightarrow> string" where
  \<comment> \<open>\<^verbatim>\<open>_get_cache_key\<close>\<close>
  "get_cache_key e self = TOM_SELECT_CACHE_PREFIX e @ uuid self"

text \<open>
  \<^verbatim>\<open>HeavyTomSelectMixin.set_to_cache\<close>: the arguments of \<^verbatim>\<open>cache.set\<close> are
  computed first; where \<^verbatim>\<open>pickle\<close> cannot serialise the widget, the error is caught
  and \<^verbatim>\<open>NotImplementedError\<close> is raised.
\<close>

definition heavy_set_to_cache ::
  "env \<Rightarrow> ('m, 'a, 'r) widget \<Rightarrow> ('m, 'a, 'r, 'j) world \<Rightarrow> error + ('m, 'a, 'r, 'j) world" where
  "heavy_set_to_cache e self s =
     (case get_url e self of
        Inl err \<Rightarrow> Inl err
      | Inr url \<Rightarrow>
          if picklable self then Inr (cache_set (get_cache_key e self) (WidgetEntry self url) s)
          else Inl (NotImplementedError
                 (''You need to overwrite '' @ [CHR 0x22] @ ''set_to_cache'' @ [CHR 0x22] @
                  '' or ensure that '' @ cls_name self @ '' is serialisable.'')))"

text \<open>
  \<^verbatim>\<open>ModelTomSelectMixin.set_to_cache\<close>. The dictionary is built first:
  \<^verbatim>\<open>queryset.none()\<close> raises \<^verbatim>\<open>AttributeError\<close> where \<^verbatim>\<open>get_queryset\<close> returned
  \<^verbatim>\<open>None\<close>. There is no \<^verbatim>\<open>try\<close> around \<^verbatim>\<open>cache.set\<close> here, so an error of
  \<^verbatim>\<open>pickle\<close> goes to the caller as it is (\<open>PicklingError\<close> stands for it, with the
  name of the class).
\<close>

definition model_set_to_cache ::
  "env \<Rightarrow> ('m, 'a, 'r) widget \<Rightarrow> ('m, 'a, 'r, 'j) world \<Rightarrow> error + ('m, 'a, 'r, 'j) world" where
  "model_set_to_cache e self s =
     (case get_queryset self of
        Inl err \<Rightarrow> Inl err
      | Inr None \<Rightarrow> Inl (none_has_no ''none'')
      | Inr (Some qs) \<Rightarrow>
          (case get_url e self of
             Inl err \<Rightarrow> Inl err
           | Inr url \<Rightarrow>
               if picklable self
               then Inr (cache_set (get_cache_key e self)
                      (ModelEntry
                         \<lparr>d_queryset = (none_qs qs, query qs),
                          d_cls = cls_name self,
                          d_search_fields = search_fields self,
                          d_max_results = max_results self,
                          d_url = url,
                          d_dependent_fields = dependent_fields self\<rparr>) s)
               else Inl (PicklingError (cls_name self))))"

definition set_to_cache ::
  "env \<Rightarrow> ('m, 'a, 'r) widget \<Rightarrow> ('m, 'a, 'r, 'j) world \<Rightarrow> error + ('m, 'a, 'r, 'j) world" where
  \<comment> \<open>\<^verbatim>\<open>self.set_to_cache()\<close>, by the class of the widget\<close>
  "set_to_cache e self s =
     (case kind self of
        Heavy \<Rightarrow> heavy_set_to_cache e self s
      | Model \<Rightarrow> model_set_to_cache e self s)"

text \<open>
  \<^verbatim>\<open>HeavyTomSelectMixin.render\<close>. The markup is not modelled; building it reads the
  URL (\<^verbatim>\<open>build_attrs\<close> calls \<^verbatim>\<open>get_url\<close>), which can raise before the cache is
  written.
\<close>

definition render ::
  "env \<Rightarrow> ('m, 'a, 'r) widget \<Rightarrow> ('m, 'a, 'r, 'j) world \<Rightarrow> error + ('m, 'a, 'r, 'j) world" where
  "render e self s =
     (case get_url e self of
        Inl err \<Rightarrow> Inl err
      | Inr url \<Rightarrow> set_to_cache e self s)"

subsection \<open>The response endpoint\<close>

text \<open>
  Modelled from the spec: the view class \<^verbatim>\<open>AutoResponseView\<close> of
  \<^verbatim>\<open>django_tom_select/views.py\<close>, which \<^verbatim>\<open>urls.py\<close> routes to, is not among the
  sources. The specification says: accept identifier, term, dependent values and page;
  look up the descriptor in the cache; if it is absent (expired or never existed),
  respond with a not-found status; otherwise rebuild the query, invoke the search engine
  and return the serialised results. The cache key is derived from the configurable
  prefix plus the identifier. The search and the serialisation are the parameter
  \<open>search\<close>.
\<close>

record 'a SearchRequest =
  req_identifier :: string
  req_term :: string
  req_dependent_values :: "(string \<times> 'a val) list"
  req_page :: nat

datatype 'b response = NotFound | Found 'b

definition response_endpoint ::
  "env \<Rightarrow> ('d \<Rightarrow> 'a SearchRequest \<Rightarrow> 'b) \<Rightarrow> (string \<rightharpoonup> 'd) \<Rightarrow> 'a SearchRequest \<Rightarrow> 'b response" where
  "response_endpoint e search c req =
     (case c (TOM_SELECT_CACHE_PREFIX e @ req_identifier req) of
        None \<Rightarrow> NotFound
      | Some d \<Rightarrow> Found (search d req))"

subsection \<open>Example data\<close>

text \<open>
  A small database of albums for the concrete instances below. The lookups it knows are
  \<^verbatim>\<open>title__contains\<close>, \<^verbatim>\<open>pk__startswith\<close>, \<^verbatim>\<open>artist\<close> (equality) and
  \<^verbatim>\<open>genres__title__contains\<close>; the last one goes through a many-to-many relation. A
  joined row is an album with one of its genres when the lookups of the call follow
  the relation (and the album has a genre), and the album alone otherwise.
\<close>

record album =
  pk :: string
  title :: string
  artist :: string
  genres :: "string list"

fun contains :: "string \<Rightarrow> string \<Rightarrow> bool" where
  "contains s [] = (s = [])"
| "contains s (c # cs) = (take (length s) (c # cs) = s \<or> contains s cs)"

definition album_joined :: "string \<Rightarrow> string set \<Rightarrow> album \<Rightarrow> (album \<times> string option) list" where
  "album_joined m ks r =
     (if ''genres__title__contains'' \<in> ks \<and> genres r \<noteq> []
      then map (\<lambda>g. (r, Some g)) (genres r)
      else [(r, None)])"

definition album_matches :: "string \<Rightarrow> unit val \<Rightarrow> album \<times> string option \<Rightarrow> bool" where
  "album_matches k v j =
     (case v of
        Other u \<Rightarrow> False
      | Str s \<Rightarrow>
          if k = ''title__contains'' then contains s (title (fst j))
          else if k = ''pk__startswith'' then take (length s) (pk (fst j)) = s
          else if k = ''artist'' then artist (fst j) = s
          else if k = ''genres__title__contains''
          then (case snd j of None \<Rightarrow> False | Some g \<Rightarrow> contains s g)
          else False)"

definition album_spawns :: "string \<Rightarrow> string \<Rightarrow> bool" where
  "album_spawns m k = (k = ''genres__title__contains'')"

definition escape :: album where
  "escape = \<lparr>pk = ''1'', title = ''the great escape'', artist = ''blur'',
             genres = [''rock'', ''pop rock'']\<rparr>"

definition north :: album where
  "north = \<lparr>pk = ''2'', title = ''great is the north'', artist = ''queen'',
            genres = [''rock'']\<rparr>"

definition thriller :: album where
  "thriller = \<lparr>pk = ''3'', title = ''thriller'', artist = ''queen'', genres = [''pop'']\<rparr>"

definition mixtape :: album where
  "mixtape = \<lparr>pk = ''4'', title = ''mixtape'', artist = ''blur'', genres = [''rock'', ''pop'']\<rparr>"

definition album_table :: "string \<Rightarrow> album list" where
  "album_table m = [escape, north, thriller, mixtape]"

definition albums :: "(string, unit, album) QuerySet" where
  \<comment> \<open>\<^verbatim>\<open>Album.objects.all()\<close>\<close>
  "albums = all_qs ''Album''"

definition title_widget :: "(string, unit, album) widget" where
  "title_widget =
     \<lparr>cls_name = ''TitleModelTomSelectWidget'', kind = Model, uuid = ''uuid-0'',
      field_id = ''signed:uuid-0'', data_view = Some ''django_tom_select:auto-json'',
      data_url = None, dependent_fields = [], userGetValTextFuncName = ''null'',
      picklable = True, model = None, queryset = Some albums, choices_queryset = None,
      search_fields = [''title__contains'', ''pk__startswith''], max_results = 25\<rparr>"

text \<open>
  Settings, a source of identifiers, and widget classes as in the test application:
  \<^verbatim>\<open>HeavyTomSelectWidget\<close> declares neither \<^verbatim>\<open>data_view\<close> nor \<^verbatim>\<open>data_url\<close>,
  \<^verbatim>\<open>ArtistDataViewWidget\<close> declares \<^verbatim>\<open>data_view = "heavy_data_1"\<close>.
\<close>

definition example_env :: env where
  "example_env =
     \<lparr>TOM_SELECT_CACHE_PREFIX = ''tomselect_'',
      signing_dumps = (\<lambda>u. ''signed:'' @ u),
      reverse = (\<lambda>v. if v = ''django_tom_select:auto-json'' then Some ''/tomselect/fields/auto.json''
                      else if v = ''heavy_data_1'' then Some ''/heavy_data_1''
                      else None)\<rparr>"

definition example_uuids :: "nat \<Rightarrow> string" where
  "example_uuids n = ''uuid-'' @ replicate n (CHR ''i'')"

definition empty_world :: "(string, unit, album, album \<times> string option) world" where
  "empty_world =
     \<lparr>uuid_source = example_uuids, uuid_drawn = 0, cache = Map.empty, cache_writes = 0,
      db_rows = album_table, db_joined = album_joined, db_matches = album_matches\<rparr>"

definition HeavyTomSelectWidget :: "(string, unit, album) cls" where
  "HeavyTomSelectWidget =
     \<lparr>c_name = ''HeavyTomSelectWidget'', c_kind = Heavy, c_picklable = True,
      c_data_view = None, c_data_url = None, c_dependent_fields = [], c_model = None,
      c_queryset = None, c_search_fields = [], c_max_results = 25\<rparr>"

definition ArtistDataViewWidget :: "(string, unit, album) cls" where
  "ArtistDataViewWidget =
     HeavyTomSelectWidget\<lparr>c_name := ''ArtistDataViewWidget'', c_data_view := Some ''heavy_data_1''\<rparr>"

definition no_kwargs :: "(string, unit, album) kwargs" where
  "no_kwargs =
     \<lparr>kw_data_view = None, kw_data_url = None, kw_dependent_fields = None,
      kw_userGetValTextFuncName = None, kw_model = None, kw_queryset = None,
      kw_search_fields = None, kw_max_results = None\<rparr>"


definition constructed :: "(string, unit, album, album \<times> string option) world" where
  "constructed = empty_world\<lparr>uuid_drawn := 1\<rparr>"



definition evaluated_albums :: "(string, unit, album) QuerySet" where
  "evaluated_albums = albums\<lparr>result_cache := Some [escape, north, thriller, mixtape]\<rparr>"

definition genre_widget :: "(string, unit, album) widget" where
  "genre_widget = title_widget\<lparr>search_fields := [''genres__title__contains'']\<rparr>"

section \<open>Properties\<close>

subsection \<open>Tokens\<close>

lemma split_from_Nil_iff: "split_from cur s = [] \<longleftrightarrow> cur = [] \<and> (\<forall>c \<in> set s. isspace c)"
  by (induction s arbitrary: cur) auto

lemma split_Nil_iff: "split s = [] \<longleftrightarrow> (\<forall>c \<in> set s. isspace c)"
  by (simp add: split_def split_from_Nil_iff)

subsection \<open>The meaning of combined \<^verbatim>\<open>Q\<close> objects\<close>

lemma holds_add_AND:
  "(\<forall>q \<in> set (add cs d AND). holds m q r) = ((\<forall>q \<in> set cs. holds m q r) \<and> holds m d r)"
proof (cases d)
  case (Lookup k v)
  then show ?thesis by (auto simp: add_def)
next
  case (Node c qs)
  then show ?thesis
    by (cases c) (auto simp: add_def length_Suc_conv)
qed

lemma holds_add_OR:
  "(\<exists>q \<in> set (add cs d OR). holds m q r) = ((\<exists>q \<in> set cs. holds m q r) \<or> holds m d r)"
proof (cases d)
  case (Lookup k v)
  then show ?thesis by (auto simp: add_def)
next
  case (Node c qs)
  then show ?thesis
    by (cases c) (auto simp: add_def length_Suc_conv)
qed

lemma add_not_Nil: "\<not> is_empty d \<Longrightarrow> add cs d conn \<noteq> []"
  by (cases d) (auto simp: add_def)

lemma combine_not_empty: "\<not> is_empty a \<Longrightarrow> \<not> is_empty b \<Longrightarrow> \<not> is_empty (combine a b conn)"
  by (simp add: combine_def add_not_Nil)

lemma holds_q_or:
  "\<not> is_empty a \<Longrightarrow> \<not> is_empty b \<Longrightarrow> holds m (q_or a b) r = (holds m a r \<or> holds m b r)"
  by (simp add: q_or_def combine_def holds_add_OR)

lemma holds_q_and:
  "is_empty a \<longrightarrow> holds m a r \<Longrightarrow> is_empty b \<longrightarrow> holds m b r \<Longrightarrow>
   holds m (q_and a b) r = (holds m a r \<and> holds m b r)"
  by (auto simp add: q_and_def combine_def holds_add_AND)

lemma Q_kwargs_not_empty: "kw \<noteq> [] \<Longrightarrow> \<not> is_empty (Q_kwargs kw)"
proof -
  have "length (sort_key fst kw) = length kw" by simp
  then have "kw \<noteq> [] \<Longrightarrow> sort_key fst kw \<noteq> []" by (metis length_0_conv)
  then show "kw \<noteq> [] \<Longrightarrow> \<not> is_empty (Q_kwargs kw)" by (simp add: Q_kwargs_def)
qed

lemma holds_Q_kwargs: "holds m (Q_kwargs kw) r = (\<forall>(k, v) \<in> set kw. m k v r)"
  by (auto simp: Q_kwargs_def)

lemma holds_Q_empty: "holds m Q_empty r"
  by (simp add: Q_empty_def)

lemma foldl_q_or_not_empty:
  "\<not> is_empty x \<Longrightarrow> \<forall>q \<in> set xs. \<not> is_empty q \<Longrightarrow> \<not> is_empty (foldl q_or x xs)"
proof (induction xs arbitrary: x)
  case Nil
  then show ?case by simp
next
  case (Cons y ys)
  have "\<not> is_empty (q_or x y)"
    using Cons.prems by (simp add: q_or_def combine_not_empty)
  with Cons.IH Cons.prems show ?case by simp
qed

lemma foldl_q_or_holds:
  "\<not> is_empty x \<Longrightarrow> \<forall>q \<in> set xs. \<not> is_empty q \<Longrightarrow>
   holds m (foldl q_or x xs) r = (holds m x r \<or> (\<exists>q \<in> set xs. holds m q r))"
proof (induction xs arbitrary: x)
  case Nil
  then show ?case by simp
next
  case (Cons y ys)
  have ne: "\<not> is_empty (q_or x y)"
    using Cons.prems by (simp add: q_or_def combine_not_empty)
  have "holds m (q_or x y) r = (holds m x r \<or> holds m y r)"
    using Cons.prems by (simp add: holds_q_or)
  with Cons.IH [OF ne] Cons.prems show ?case by auto
qed

lemma reduce_or_queries_Inr:
  "lookups \<noteq> [] \<Longrightarrow> \<exists>q. reduce q_or (or_queries lookups t) = Inr q"
  by (cases lookups) (auto simp: or_queries_def)

lemma reduce_or_queries:
  assumes "reduce q_or (or_queries lookups t) = Inr q"
  shows "\<not> is_empty q" and "holds m q r = (\<exists>f \<in> set lookups. m f (Str t) r)"
proof -
  obtain f fs where l: "lookups = f # fs"
    using assms by (cases lookups) (auto simp: or_queries_def)
  have q: "q = foldl q_or (Q_kwargs [(f, Str t)]) (or_queries fs t)"
    using assms by (simp add: l or_queries_def)
  have x: "\<not> is_empty (Q_kwargs [(f, Str t)] :: 'a Q)"
    by (simp add: Q_kwargs_not_empty)
  have xs: "\<forall>q \<in> set (or_queries fs t :: 'a Q list). \<not> is_empty q"
    by (auto simp: or_queries_def Q_kwargs_not_empty)
  have hs: "(\<exists>q \<in> set (or_queries fs t). holds m q r) = (\<exists>f \<in> set fs. m f (Str t) r)"
    by (auto simp: or_queries_def holds_Q_kwargs)
  show "\<not> is_empty q"
    using foldl_q_or_not_empty [OF x xs] by (simp add: q)
  show "holds m q r = (\<exists>f \<in> set lookups. m f (Str t) r)"
    using foldl_q_or_holds [OF x xs, of m r] hs by (simp add: q l holds_Q_kwargs)
qed

lemma and_bits_Inr:
  "lookups \<noteq> [] \<Longrightarrow> \<exists>q. and_bits lookups select toks = Inr q"
proof (induction toks arbitrary: select)
  case Nil
  then show ?case by simp
next
  case (Cons t ts)
  from reduce_or_queries_Inr [OF Cons.prems, of t]
  obtain q :: "'a Q" where "reduce q_or (or_queries lookups t) = Inr q" by blast
  with Cons.IH [OF Cons.prems] show ?case by simp
qed

lemma and_bits_holds:
  assumes "and_bits lookups select toks = Inr q" and "is_empty select \<longrightarrow> holds m select r"
  shows "holds m q r = (holds m select r \<and> (\<forall>t \<in> set toks. \<exists>f \<in> set lookups. m f (Str t) r))"
    and "is_empty q \<longleftrightarrow> is_empty select \<and> toks = []"
  using assms
proof (induction toks arbitrary: select)
  case Nil
  { case 1 then show ?case by simp }
  { case 2 then show ?case by simp }
next
  case (Cons t ts)
  { case 1
    then obtain q1 where q1: "reduce q_or (or_queries lookups t) = Inr q1"
      and rest: "and_bits lookups (q_and select q1) ts = Inr q"
      by (auto split: sum.splits)
    have a: "holds m (q_and select q1) r = (holds m select r \<and> holds m q1 r)"
      using 1(2) reduce_or_queries(1) [OF q1] by (simp add: holds_q_and)
    have ne: "\<not> is_empty (q_and select q1)"
      using reduce_or_queries(1) [OF q1] by (auto simp: q_and_def combine_def add_not_Nil)
    from Cons.IH(1) [OF rest] ne a reduce_or_queries(2) [OF q1, of m r]
    show ?case by auto }
  { case 2
    then obtain q1 where q1: "reduce q_or (or_queries lookups t) = Inr q1"
      and rest: "and_bits lookups (q_and select q1) ts = Inr q"
      by (auto split: sum.splits)
    have ne: "\<not> is_empty (q_and select q1)"
      using reduce_or_queries(1) [OF q1] by (auto simp: q_and_def combine_def add_not_Nil)
    from Cons.IH(2) [OF rest] ne show ?case by auto }
qed

subsection \<open>The lookups of combined \<^verbatim>\<open>Q\<close> objects\<close>

lemma lookup_names_is_empty: "is_empty a \<Longrightarrow> lookup_names a = []"
  by (cases a) auto

lemma lookup_names_add:
  "(\<Union>q \<in> set (add cs d conn). set (lookup_names q)) =
     (\<Union>q \<in> set cs. set (lookup_names q)) \<union> set (lookup_names d)"
  by (cases d) (auto simp: add_def)

lemma lookup_names_combine:
  "set (lookup_names (combine a b conn)) = set (lookup_names a) \<union> set (lookup_names b)"
  by (simp add: combine_def lookup_names_is_empty lookup_names_add)

lemma lookup_names_Q_kwargs: "set (lookup_names (Q_kwargs kw)) = set (map fst kw)"
  by (force simp: Q_kwargs_def)

lemma lookup_names_foldl_q_or:
  "set (lookup_names (foldl q_or x xs)) =
     set (lookup_names x) \<union> set (concat (map lookup_names xs))"
  by (induction xs arbitrary: x) (auto simp: q_or_def lookup_names_combine)

lemma lookup_names_reduce_or_queries:
  assumes "reduce q_or (or_queries lookups t) = Inr q"
  shows "set (lookup_names q) = set lookups"
proof -
  obtain f fs where l: "lookups = f # fs"
    using assms by (cases lookups) (auto simp: or_queries_def)
  have q: "q = foldl q_or (Q_kwargs [(f, Str t)]) (or_queries fs t)"
    using assms by (simp add: l or_queries_def)
  have "set (concat (map lookup_names (or_queries fs t :: 'a Q list))) = set fs"
    by (induction fs) (auto simp: or_queries_def lookup_names_Q_kwargs)
  then show ?thesis
    by (simp add: q l lookup_names_foldl_q_or lookup_names_Q_kwargs)
qed

lemma lookup_names_and_bits:
  assumes "and_bits lookups select toks = Inr q"
  shows "set (lookup_names q) =
           set (lookup_names select) \<union> (if toks = [] then {} else set lookups)"
  using assms
proof (induction toks arbitrary: select)
  case Nil
  then show ?case by simp
next
  case (Cons t ts)
  then obtain q1 where q1: "reduce q_or (or_queries lookups t) = Inr q1"
    and rest: "and_bits lookups (q_and select q1) ts = Inr q"
    by (auto split: sum.splits)
  from Cons.IH [OF rest] lookup_names_reduce_or_queries [OF q1]
  show ?case by (auto simp: q_and_def lookup_names_combine)
qed

subsection \<open>The filter that \<^verbatim>\<open>filter_queryset\<close> builds\<close>

lemma search_block_Inr:
  assumes "lookups \<noteq> []"
  shows "\<exists>sel :: 'a Q. search_block spawns M lookups term Q_empty ud =
           Inr (sel, ud \<or> (\<exists>f \<in> set lookups. spawns M f))"
proof -
  from and_bits_Inr [OF assms]
  obtain s1 :: "'a Q" where s1: "and_bits lookups Q_empty (split term) = Inr s1" by blast
  from reduce_or_queries_Inr [OF assms]
  obtain q :: "'a Q" where q: "reduce q_or (or_queries lookups term) = Inr q" by blast
  show ?thesis by (simp add: search_block_def s1 q)
qed

lemma search_block_holds:
  assumes "search_block spawns M lookups term Q_empty ud = Inr (sel :: 'a Q, ud')"
  shows "\<not> is_empty sel"
    and "holds m sel r =
           ((split term \<noteq> [] \<and> (\<forall>tok \<in> set (split term). \<exists>f \<in> set lookups. m f (Str tok) r)) \<or>
            (\<exists>f \<in> set lookups. m f (Str term) r))"
proof -
  from assms obtain s1 q where s1: "and_bits lookups Q_empty (split term) = Inr s1"
    and q: "reduce q_or (or_queries lookups term) = Inr q" and sel: "sel = q_or s1 q"
    by (auto simp: search_block_def split: sum.splits)
  have e: "is_empty (Q_empty :: 'a Q) \<longrightarrow> holds m Q_empty r"
    by (simp add: holds_Q_empty)
  have h1: "holds m s1 r = (\<forall>tok \<in> set (split term). \<exists>f \<in> set lookups. m f (Str tok) r)"
    using and_bits_holds(1) [OF s1 e] by (simp add: holds_Q_empty)
  have e1: "is_empty s1 \<longleftrightarrow> split term = []"
    using and_bits_holds(2) [OF s1 e] by (simp add: Q_empty_def)
  note nq = reduce_or_queries(1) [OF q]
  note hq = reduce_or_queries(2) [OF q, of m r]
  show "\<not> is_empty sel"
    using nq by (auto simp: sel q_or_def combine_def add_not_Nil)
  show "holds m sel r =
           ((split term \<noteq> [] \<and> (\<forall>tok \<in> set (split term). \<exists>f \<in> set lookups. m f (Str tok) r)) \<or>
            (\<exists>f \<in> set lookups. m f (Str term) r))"
  proof (cases "is_empty s1")
    case True
    then have "sel = q" by (simp add: sel q_or_def combine_def)
    with True e1 hq show ?thesis by simp
  next
    case False
    then have "holds m sel r = (holds m s1 r \<or> holds m q r)"
      using nq by (simp add: sel holds_q_or)
    with False e1 h1 hq show ?thesis by simp
  qed
qed

lemma search_block_lookup_names:
  assumes "search_block spawns M lookups term Q_empty ud = Inr (sel :: 'a Q, ud')"
  shows "set (lookup_names sel) = set lookups"
proof -
  from assms obtain s1 q where s1: "and_bits lookups Q_empty (split term) = Inr s1"
    and q: "reduce q_or (or_queries lookups term) = Inr q" and sel: "sel = q_or s1 q"
    by (auto simp: search_block_def split: sum.splits)
  from lookup_names_and_bits [OF s1] lookup_names_reduce_or_queries [OF q]
  show ?thesis by (auto simp: sel q_or_def lookup_names_combine Q_empty_def)
qed

lemma filter_queryset_select:
  assumes base: "base_queryset w qa = Inr (Some (qs :: ('m, 'a, 'r) QuerySet))"
    and sf: "search_fields w \<noteq> []"
  shows "\<exists>sel. filter_queryset spawns w term qa deps =
                 Inr (if (term \<noteq> [] \<and> (\<exists>f \<in> set (search_fields w). spawns (q_model (query qs)) f)) \<or>
                         (\<exists>k \<in> set (map fst deps). spawns (q_model (query qs)) k)
                      then distinct_qs (filter_qs qs sel) else filter_qs qs sel) \<and>
               (\<forall>r. holds m sel r =
                  ((term = [] \<or>
                    (split term \<noteq> [] \<and>
                     (\<forall>tok \<in> set (split term). \<exists>f \<in> set (search_fields w). m f (Str tok) r)) \<or>
                    (\<exists>f \<in> set (search_fields w). m f (Str term) r)) \<and>
                   (\<forall>(k, v) \<in> set deps. m k v r))) \<and>
               (is_empty sel \<longleftrightarrow> term = [] \<and> deps = []) \<and>
               set (lookup_names sel) =
                 (if term = [] then {} else set (search_fields w)) \<union> set (map fst deps)"
proof -
  let ?M = "q_model (query qs)"
  have gsf: "get_search_fields w = Inr (search_fields w)"
    using sf by (simp add: get_search_fields_def)
  define ud0 where "ud0 = (term \<noteq> [] \<and> (\<exists>f \<in> set (search_fields w). spawns ?M f))"
  have "\<exists>sel0 :: 'a Q.
          (if search_fields w \<noteq> [] \<and> term \<noteq> []
           then search_block spawns ?M (search_fields w) term Q_empty False
           else Inr (Q_empty, False)) = Inr (sel0, ud0)"
  proof (cases "term = []")
    case True
    then show ?thesis by (simp add: ud0_def)
  next
    case False
    from search_block_Inr [OF sf, of spawns ?M "term" False]
    obtain sel1 :: "'a Q" where
      "search_block spawns ?M (search_fields w) term Q_empty False =
         Inr (sel1, False \<or> (\<exists>f \<in> set (search_fields w). spawns ?M f))"
      by blast
    with False sf show ?thesis by (simp add: ud0_def)
  qed
  then obtain sel0 :: "'a Q" where
    blk: "(if search_fields w \<noteq> [] \<and> term \<noteq> []
           then search_block spawns ?M (search_fields w) term Q_empty False
           else Inr (Q_empty, False)) = Inr (sel0, ud0)"
    by blast
  have h0: "holds m sel0 r =
              (term = [] \<or>
               (split term \<noteq> [] \<and>
                (\<forall>tok \<in> set (split term). \<exists>f \<in> set (search_fields w). m f (Str tok) r)) \<or>
               (\<exists>f \<in> set (search_fields w). m f (Str term) r))" for r
  proof (cases "term = []")
    case True
    with blk have "sel0 = Q_empty" by simp
    with True show ?thesis by (simp add: holds_Q_empty)
  next
    case False
    with blk sf have "search_block spawns ?M (search_fields w) term Q_empty False = Inr (sel0, ud0)"
      by simp
    from search_block_holds(2) [OF this, of m r] False show ?thesis by simp
  qed
  have e0: "is_empty sel0 \<longrightarrow> holds m sel0 r" for r
  proof (cases "term = []")
    case True
    with blk have "sel0 = Q_empty" by simp
    then show ?thesis by (simp add: holds_Q_empty)
  next
    case False
    with blk sf have "search_block spawns ?M (search_fields w) term Q_empty False = Inr (sel0, ud0)"
      by simp
    from search_block_holds(1) [OF this] show ?thesis by simp
  qed
  have em0: "is_empty sel0 \<longleftrightarrow> term = []"
  proof (cases "term = []")
    case True
    with blk have "sel0 = Q_empty" by simp
    with True show ?thesis by (simp add: Q_empty_def)
  next
    case False
    with blk sf have "search_block spawns ?M (search_fields w) term Q_empty False = Inr (sel0, ud0)"
      by simp
    from search_block_holds(1) [OF this] False show ?thesis by simp
  qed
  have n0: "set (lookup_names sel0) = (if term = [] then {} else set (search_fields w))"
  proof (cases "term = []")
    case True
    with blk have "sel0 = Q_empty" by simp
    with True show ?thesis by (simp add: Q_empty_def)
  next
    case False
    with blk sf have "search_block spawns ?M (search_fields w) term Q_empty False = Inr (sel0, ud0)"
      by simp
    from search_block_lookup_names [OF this] False show ?thesis by simp
  qed
  define sel where "sel = (if deps \<noteq> [] then q_and sel0 (Q_kwargs deps) else sel0)"
  have em: "is_empty sel \<longleftrightarrow> term = [] \<and> deps = []"
  proof (cases "deps = []")
    case True
    then show ?thesis by (simp add: sel_def em0)
  next
    case False
    then have "\<not> is_empty (Q_kwargs deps :: 'a Q)" by (simp add: Q_kwargs_not_empty)
    then have "\<not> is_empty (q_and sel0 (Q_kwargs deps))"
      by (auto simp: q_and_def combine_def add_not_Nil)
    with False show ?thesis by (simp add: sel_def)
  qed
  have ns: "set (lookup_names sel) =
              (if term = [] then {} else set (search_fields w)) \<union> set (map fst deps)"
    by (simp add: sel_def q_and_def lookup_names_combine lookup_names_Q_kwargs n0)
  have hs: "holds m sel r = (holds m sel0 r \<and> (\<forall>(k, v) \<in> set deps. m k v r))" for r
  proof (cases "deps = []")
    case True
    then show ?thesis by (simp add: sel_def)
  next
    case False
    have "is_empty (Q_kwargs deps) \<longrightarrow> holds m (Q_kwargs deps) r"
      using False by (simp add: Q_kwargs_not_empty)
    from holds_q_and [OF e0 this] False show ?thesis
      by (simp add: sel_def holds_Q_kwargs)
  qed
  have "filter_queryset spawns w term qa deps =
          Inr (if ud0 \<or> (\<exists>k \<in> set (map fst deps). spawns ?M k)
               then distinct_qs (filter_qs qs sel) else filter_qs qs sel)"
    unfolding filter_queryset_def base gsf
    using blk sf by (simp add: sel_def Let_def)
  then have fq: "filter_queryset spawns w term qa deps =
          Inr (if (term \<noteq> [] \<and> (\<exists>f \<in> set (search_fields w). spawns ?M f)) \<or>
                  (\<exists>k \<in> set (map fst deps). spawns ?M k)
               then distinct_qs (filter_qs qs sel) else filter_qs qs sel)"
    unfolding ud0_def .
  have hh: "\<forall>r. holds m sel r =
              ((term = [] \<or>
                (split term \<noteq> [] \<and>
                 (\<forall>tok \<in> set (split term). \<exists>f \<in> set (search_fields w). m f (Str tok) r)) \<or>
                (\<exists>f \<in> set (search_fields w). m f (Str term) r)) \<and>
               (\<forall>(k, v) \<in> set deps. m k v r))"
    by (simp only: hs h0) simp
  from fq hh em ns show ?thesis by blast
qed

subsection \<open>Running the filtered queryset\<close>

lemma set_select_rows:
  "set (select_rows joined m M c rs) =
     {r \<in> set rs. is_empty c \<or> (\<exists>j \<in> set (joined M (set (lookup_names c)) r). holds m c j)}"
  by (auto simp: select_rows_def)

lemma select_rows_empty: "is_empty c \<Longrightarrow> select_rows joined m M c rs = rs"
  by (simp add: select_rows_def)

lemma set_rows_filter_qs:
  "set (rows db joined m (filter_qs qs sel)) =
     {r \<in> set (execute db joined m (query qs)).
        is_empty sel \<or>
        (\<exists>j \<in> set (joined (q_model (query qs)) (set (lookup_names sel)) r). holds m sel j)}"
  by (simp add: rows_def filter_qs_def execute_def Let_def set_select_rows)

lemma rows_filter_qs_empty:
  "is_empty sel \<Longrightarrow> rows db joined m (filter_qs qs sel) = execute db joined m (query qs)"
  by (simp add: rows_def filter_qs_def execute_def Let_def select_rows_empty)

lemma rows_distinct_qs:
  "result_cache qs = None \<Longrightarrow>
   rows db joined m (distinct_qs qs) = remdups (rows db joined m qs)"
  by (simp add: rows_def distinct_qs_def execute_def Let_def remdups_remdups)

lemma q_where_filter_qs: "q_where (query (filter_qs qs sel)) = q_where (query qs) @ [sel]"
  by (simp add: filter_qs_def)

lemma q_where_distinct_qs: "q_where (query (distinct_qs qs)) = q_where (query qs)"
  by (simp add: distinct_qs_def)

lemma filter_qs_inject:
  assumes "filter_qs qs a = filter_qs qs b" shows "a = b"
proof -
  have "q_where (query (filter_qs qs a)) = q_where (query (filter_qs qs b))"
    by (simp only: assms)
  then show ?thesis by (simp only: q_where_filter_qs append1_eq_conv)
qed

lemma distinct_filter_qs_inject:
  assumes "distinct_qs (filter_qs qs a) = distinct_qs (filter_qs qs b)" shows "a = b"
proof -
  have "q_where (query (distinct_qs (filter_qs qs a))) =
        q_where (query (distinct_qs (filter_qs qs b)))"
    by (simp only: assms)
  then show ?thesis by (simp only: q_where_distinct_qs q_where_filter_qs append1_eq_conv)
qed

lemma set_rows_filter_queryset:
  assumes "base_queryset w qa = Inr (Some qs)" and "search_fields w \<noteq> []"
  shows "\<exists>res. filter_queryset spawns w term qa deps = Inr res \<and>
           set (rows db joined m res) =
             {r \<in> set (execute db joined m (query qs)).
                (term = [] \<and> deps = []) \<or>
                (\<exists>j \<in> set (joined (q_model (query qs))
                             ((if term = [] then {} else set (search_fields w)) \<union>
                              set (map fst deps)) r).
                   (term = [] \<or>
                    (split term \<noteq> [] \<and>
                     (\<forall>tok \<in> set (split term). \<exists>f \<in> set (search_fields w). m f (Str tok) j)) \<or>
                    (\<exists>f \<in> set (search_fields w). m f (Str term) j)) \<and>
                   (\<forall>(k, v) \<in> set deps. m k v j))}"
proof -
  from filter_queryset_select [OF assms, of spawns "term" deps m]
  obtain sel where
    fq: "filter_queryset spawns w term qa deps =
           Inr (if (term \<noteq> [] \<and> (\<exists>f \<in> set (search_fields w). spawns (q_model (query qs)) f)) \<or>
                   (\<exists>k \<in> set (map fst deps). spawns (q_model (query qs)) k)
                then distinct_qs (filter_qs qs sel) else filter_qs qs sel)"
    and hs: "\<And>j. holds m sel j =
               ((term = [] \<or>
                 (split term \<noteq> [] \<and>
                  (\<forall>tok \<in> set (split term). \<exists>f \<in> set (search_fields w). m f (Str tok) j)) \<or>
                 (\<exists>f \<in> set (search_fields w). m f (Str term) j)) \<and>
                (\<forall>(k, v) \<in> set deps. m k v j))"
    and em: "is_empty sel \<longleftrightarrow> term = [] \<and> deps = []"
    and ns: "set (lookup_names sel) =
               (if term = [] then {} else set (search_fields w)) \<union> set (map fst deps)"
    by blast
  have rc: "result_cache (filter_qs qs sel) = None"
    by (simp add: filter_qs_def)
  have d: "set (rows db joined m (distinct_qs (filter_qs qs sel))) =
           set (rows db joined m (filter_qs qs sel))"
    by (simp add: rows_distinct_qs [OF rc])
  define res where
    "res = (if (term \<noteq> [] \<and> (\<exists>f \<in> set (search_fields w). spawns (q_model (query qs)) f)) \<or>
               (\<exists>k \<in> set (map fst deps). spawns (q_model (query qs)) k)
            then distinct_qs (filter_qs qs sel) else filter_qs qs sel)"
  have "set (rows db joined m res) = set (rows db joined m (filter_qs qs sel))"
    using d by (simp add: res_def)
  then have "set (rows db joined m res) =
     {r \<in> set (execute db joined m (query qs)).
        is_empty sel \<or>
        (\<exists>j \<in> set (joined (q_model (query qs)) (set (lookup_names sel)) r). holds m sel j)}"
    by (simp only: set_rows_filter_qs)
  then have "set (rows db joined m res) =
             {r \<in> set (execute db joined m (query qs)).
                (term = [] \<and> deps = []) \<or>
                (\<exists>j \<in> set (joined (q_model (query qs))
                             ((if term = [] then {} else set (search_fields w)) \<union>
                              set (map fst deps)) r).
                   (term = [] \<or>
                    (split term \<noteq> [] \<and>
                     (\<forall>tok \<in> set (split term). \<exists>f \<in> set (search_fields w). m f (Str tok) j)) \<or>
                    (\<exists>f \<in> set (search_fields w). m f (Str term) j)) \<and>
                   (\<forall>(k, v) \<in> set deps. m k v j))}"
    by (simp only: hs em ns)
  moreover have "filter_queryset spawns w term qa deps = Inr res"
    using fq by (simp only: res_def)
  ultimately show ?thesis by blast
qed

subsection \<open>Rendering\<close>


lemma fetch_all_none_qs:
  "fetch_all db joined m (none_qs qs) = (none_qs qs)\<lparr>result_cache := Some []\<rparr>"
  by (simp add: fetch_all_def rows_def none_qs_def execute_def)




lemma render_not_ValueError: "render e w s \<noteq> Inl (ValueError msg)"
  by (auto simp: render_def set_to_cache_def heavy_set_to_cache_def model_set_to_cache_def
      get_url_def get_queryset_def none_has_no_def
      split: sum.splits kind.splits option.splits if_splits)

subsection \<open>The example data\<close>

lemma title_widget_base: "base_queryset title_widget None = Inr (Some albums)"
  by (simp add: base_queryset_def get_queryset_def title_widget_def)

lemma title_widget_fields: "search_fields title_widget = [''title__contains'', ''pk__startswith'']"
  by (simp add: title_widget_def)

lemma execute_albums:
  "execute album_table album_joined album_matches (query albums) =
     [escape, north, thriller, mixtape]"
  by (simp add: execute_def albums_def all_qs_def album_table_def)

lemma albums_model: "q_model (query albums) = ''Album''"
  by (simp add: albums_def all_qs_def)



section \<open>The claims\<close>

subsection \<open>Configuration errors of the search engine\<close>

text \<open>
  Claim C8. For a Model widget whose \<^verbatim>\<open>search_fields\<close> are empty,
  \<^verbatim>\<open>get_search_fields\<close> raises \<^verbatim>\<open>NotImplementedError\<close> with the message that names
  the class, and so does every call of \<^verbatim>\<open>filter_queryset\<close>, whatever the term, the
  queryset and the dependent values are: the search never returns a result, empty or
  not. (Where the base queryset cannot be resolved either, the error is the one of
  \<^verbatim>\<open>get_queryset\<close>, of the same class.)
\<close>

theorem get_search_fields_missing:
  "search_fields w = [] \<Longrightarrow>
   get_search_fields w =
     Inl (NotImplementedError
       (cls_name w @ '', must implement '' @ [CHR 0x22] @ ''search_fields'' @ [CHR 0x22] @ ''.'')) \<and>
   (\<exists>msg. filter_queryset spawns w term qa deps = Inl (NotImplementedError msg))"
  by (auto simp: get_search_fields_def filter_queryset_def base_queryset_def get_queryset_def
      split: sum.splits option.splits)

theorem get_search_fields_missing_witness:
  "get_search_fields (title_widget\<lparr>search_fields := []\<rparr>) =
     Inl (NotImplementedError ''TitleModelTomSelectWidget, must implement \"search_fields\".'') \<and>
   (\<exists>msg. filter_queryset album_spawns (title_widget\<lparr>search_fields := []\<rparr>) ''the great'' None [] =
      Inl (NotImplementedError msg))"
  using get_search_fields_missing [of "title_widget\<lparr>search_fields := []\<rparr>" album_spawns "''the great''" None "[]"]
  by (simp add: title_widget_def)

text \<open>
  Claim C9. As stated (model and queryset both absent, so resolving the queryset
  raises), the claim fails: \<^verbatim>\<open>get_queryset\<close> has a third source between the two,
  the queryset of the widget's choices, which a model choice field sets. The widget
  below has neither \<^verbatim>\<open>model\<close> nor \<^verbatim>\<open>queryset\<close> and resolves to the queryset of
  its choices.
\<close>

theorem get_queryset_choices_counterexample:
  "model (title_widget\<lparr>queryset := None, choices_queryset := Some (Some albums)\<rparr>) = None \<and>
   queryset (title_widget\<lparr>queryset := None, choices_queryset := Some (Some albums)\<rparr>) = None \<and>
   get_queryset (title_widget\<lparr>queryset := None, choices_queryset := Some (Some albums)\<rparr>) =
     Inr (Some albums)"
  by (simp add: title_widget_def get_queryset_def)

text \<open>
  Claim C9, amended. \<^verbatim>\<open>get_queryset\<close> raises exactly when the widget has no
  \<^verbatim>\<open>queryset\<close>, its choices have no \<^verbatim>\<open>queryset\<close> attribute and it has no
  \<^verbatim>\<open>model\<close>; the error is \<^verbatim>\<open>NotImplementedError\<close> with the message that names the
  class. In every other case it returns without raising: the widget's queryset; else
  the value of the \<^verbatim>\<open>queryset\<close> attribute of the choices, which is a queryset or
  \<^verbatim>\<open>None\<close> (the model is not looked at then); else all objects of the model.
\<close>

theorem get_queryset_unresolvable:
  "((\<exists>err. get_queryset w = Inl err) \<longleftrightarrow>
      queryset w = None \<and> choices_queryset w = None \<and> model w = None) \<and>
   (queryset w = None \<and> choices_queryset w = None \<and> model w = None \<longrightarrow>
      get_queryset w =
        Inl (NotImplementedError
          (cls_name w @ '' is missing a QuerySet. Define '' @
           cls_name w @ ''.model, '' @ cls_name w @ ''.queryset, or override '' @
           cls_name w @ ''.get_queryset().''))) \<and>
   (\<forall>qs. queryset w = Some qs \<longrightarrow> get_queryset w = Inr (Some qs)) \<and>
   (\<forall>v. queryset w = None \<and> choices_queryset w = Some v \<longrightarrow> get_queryset w = Inr v) \<and>
   (\<forall>m. queryset w = None \<and> choices_queryset w = None \<and> model w = Some m \<longrightarrow>
      get_queryset w = Inr (Some (all_qs m)))"
  by (auto simp: get_queryset_def split: option.splits)

theorem get_queryset_unresolvable_witness:
  "get_queryset (title_widget\<lparr>queryset := None\<rparr>) =
     Inl (NotImplementedError
       ''TitleModelTomSelectWidget is missing a QuerySet. Define TitleModelTomSelectWidget.model, TitleModelTomSelectWidget.queryset, or override TitleModelTomSelectWidget.get_queryset().'') \<and>
   get_queryset (title_widget\<lparr>queryset := None, choices_queryset := Some None,
                   model := Some ''Album''\<rparr>) = Inr None \<and>
   get_queryset (title_widget\<lparr>queryset := None, model := Some ''Album''\<rparr>) =
     Inr (Some (all_qs ''Album''))"
  using get_queryset_unresolvable [of "title_widget\<lparr>queryset := None\<rparr>"]
    get_queryset_unresolvable [of "title_widget\<lparr>queryset := None, choices_queryset := Some None,
                   model := Some ''Album''\<rparr>"]
    get_queryset_unresolvable [of "title_widget\<lparr>queryset := None, model := Some ''Album''\<rparr>"]
  by (simp add: title_widget_def)

subsection \<open>The search filter\<close>

text \<open>
  Claim C10. For a widget with search fields, \<^verbatim>\<open>filter_queryset\<close> with the empty
  term and no dependent values returns the base queryset filtered by the empty
  \<^verbatim>\<open>Q()\<close>, with no call of \<^verbatim>\<open>distinct()\<close>: it is not an error, and running it
  gives every row of the base query, in order.
\<close>

theorem filter_queryset_empty_term:
  assumes "base_queryset w qa = Inr (Some qs)" and "search_fields w \<noteq> []"
  shows "filter_queryset spawns w [] qa [] = Inr (filter_qs qs Q_empty) \<and>
         rows db joined m (filter_qs qs Q_empty) = execute db joined m (query qs) \<and>
         q_distinct (query (filter_qs qs Q_empty)) = q_distinct (query qs)"
proof -
  have "get_search_fields w = Inr (search_fields w)"
    using assms(2) by (simp add: get_search_fields_def)
  then have "filter_queryset spawns w [] qa [] = Inr (filter_qs qs Q_empty)"
    by (simp add: filter_queryset_def assms(1))
  moreover have "rows db joined m (filter_qs qs Q_empty) = execute db joined m (query qs)"
    by (simp add: rows_filter_qs_empty Q_empty_def)
  moreover have "q_distinct (query (filter_qs qs Q_empty)) = q_distinct (query qs)"
    by (simp add: filter_qs_def)
  ultimately show ?thesis by simp
qed

theorem filter_queryset_empty_term_witness:
  "filter_queryset album_spawns title_widget [] None [] = Inr (filter_qs albums Q_empty) \<and>
   rows album_table album_joined album_matches (filter_qs albums Q_empty) =
     [escape, north, thriller, mixtape]"
proof -
  have s: "search_fields title_widget \<noteq> []"
    by (simp add: title_widget_def)
  from filter_queryset_empty_term [OF title_widget_base s, of album_spawns album_table
      album_joined album_matches]
  show ?thesis by (simp add: execute_albums)
qed

text \<open>
  Claim C1. As stated for every non-empty term (a row is selected iff every token
  matches some field, or the whole term matches some field), the claim fails for a
  non-empty term without a token: \<^verbatim>\<open>" ".split()\<close> is empty, \<^verbatim>\<open>select\<close> is still the
  empty \<^verbatim>\<open>Q()\<close> after the loop, and \<^verbatim>\<open>Q() | q\<close> is \<open>q\<close>, so only the whole-term match
  is left. The album ``thriller'' satisfies the condition on every token (there is
  none), but is not selected for the term of one space. (The search fields of the
  widget follow no relation, so the joined row of the album is the album alone.)
\<close>

theorem filter_queryset_blank_term_counterexample:
  "\<not> (thriller \<in> set (rows album_table album_joined album_matches
                      (projr (filter_queryset album_spawns title_widget '' '' None []))) \<longleftrightarrow>
      thriller \<in> set (execute album_table album_joined album_matches (query albums)) \<and>
      ((\<forall>tok \<in> set (split '' '').
          \<exists>f \<in> set (search_fields title_widget). album_matches f (Str tok) (thriller, None)) \<or>
       (\<exists>f \<in> set (search_fields title_widget). album_matches f (Str '' '') (thriller, None))))"
proof -
  have sp: "split '' '' = []"
    by (simp add: split_def isspace_def)
  have fq: "filter_queryset album_spawns title_widget '' '' None [] =
          Inr (filter_qs albums
            (Node OR [Lookup ''title__contains'' (Str '' ''), Lookup ''pk__startswith'' (Str '' '')]))"
    by (simp add: filter_queryset_def title_widget_base get_search_fields_def title_widget_fields
        search_block_def sp or_queries_def Q_kwargs_def q_or_def combine_def Q_empty_def add_def
        album_spawns_def albums_def all_qs_def)
  have "thriller \<notin> set (rows album_table album_joined album_matches
          (filter_qs albums
            (Node OR [Lookup ''title__contains'' (Str '' ''), Lookup ''pk__startswith'' (Str '' '')])))"
    by (simp add: set_rows_filter_qs execute_albums album_joined_def album_matches_def
        thriller_def)
  then show ?thesis
    by (simp add: fq sp execute_albums)
qed

text \<open>
  Claim C1, amended. For a widget with search fields and a non-empty term, a row of the
  base query is selected iff one of its joined rows (the joined rows the database
  forms for the lookups of the call; the row alone where no lookup follows a
  multi-valued relation) satisfies: the term has at least one token and every token
  matches at least one search field, or the whole term matches at least one search
  field; all these lookups are tested on that one joined row (as is every
  dependent-field constraint, if any is passed).
\<close>

theorem filter_queryset_selects:
  assumes "base_queryset w qa = Inr (Some qs)" and "search_fields w \<noteq> []" and "term \<noteq> []"
  shows "\<exists>res. filter_queryset spawns w term qa deps = Inr res \<and>
           (\<forall>r. r \<in> set (rows db joined m res) \<longleftrightarrow>
              r \<in> set (execute db joined m (query qs)) \<and>
              (\<exists>j \<in> set (joined (q_model (query qs))
                           (set (search_fields w) \<union> set (map fst deps)) r).
                 ((split term \<noteq> [] \<and>
                   (\<forall>tok \<in> set (split term). \<exists>f \<in> set (search_fields w). m f (Str tok) j)) \<or>
                  (\<exists>f \<in> set (search_fields w). m f (Str term) j)) \<and>
                 (\<forall>(k, v) \<in> set deps. m k v j)))"
proof -
  from set_rows_filter_queryset [OF assms(1,2), of spawns "term" deps db joined m]
  obtain res where fq: "filter_queryset spawns w term qa deps = Inr res"
    and rs: "set (rows db joined m res) =
             {r \<in> set (execute db joined m (query qs)).
                (term = [] \<and> deps = []) \<or>
                (\<exists>j \<in> set (joined (q_model (query qs))
                             ((if term = [] then {} else set (search_fields w)) \<union>
                              set (map fst deps)) r).
                   (term = [] \<or>
                    (split term \<noteq> [] \<and>
                     (\<forall>tok \<in> set (split term). \<exists>f \<in> set (search_fields w). m f (Str tok) j)) \<or>
                    (\<exists>f \<in> set (search_fields w). m f (Str term) j)) \<and>
                   (\<forall>(k, v) \<in> set deps. m k v j))}"
    by blast
  have "r \<in> set (rows db joined m res) \<longleftrightarrow>
              r \<in> set (execute db joined m (query qs)) \<and>
              (\<exists>j \<in> set (joined (q_model (query qs))
                           (set (search_fields w) \<union> set (map fst deps)) r).
                 ((split term \<noteq> [] \<and>
                   (\<forall>tok \<in> set (split term). \<exists>f \<in> set (search_fields w). m f (Str tok) j)) \<or>
                  (\<exists>f \<in> set (search_fields w). m f (Str term) j)) \<and>
                 (\<forall>(k, v) \<in> set deps. m k v j))" for r
    unfolding rs using assms(3) by simp
  with fq show ?thesis by blast
qed

theorem filter_queryset_selects_witness:
  "(\<exists>res. filter_queryset album_spawns title_widget ''the great'' None [] = Inr res \<and>
      set (rows album_table album_joined album_matches res) = {escape, north}) \<and>
   (\<exists>res. filter_queryset album_spawns genre_widget ''pop rock'' None [] = Inr res \<and>
      set (rows album_table album_joined album_matches res) = {escape})"
proof -
  have sp: "split ''the great'' = [''the'', ''great'']"
    by (simp add: split_def isspace_def)
  from filter_queryset_selects [OF title_widget_base, of "''the great''" album_spawns "[]"
      album_table album_joined album_matches]
  have "\<exists>res. filter_queryset album_spawns title_widget ''the great'' None [] = Inr res \<and>
    (\<forall>r. r \<in> set (rows album_table album_joined album_matches res) \<longleftrightarrow>
       r \<in> set [escape, north, thriller, mixtape] \<and>
       (\<exists>j \<in> set (album_joined ''Album'' (set [''title__contains'', ''pk__startswith'']) r).
          (\<forall>tok \<in> set [''the'', ''great''].
             \<exists>f \<in> set [''title__contains'', ''pk__startswith'']. album_matches f (Str tok) j) \<or>
          (\<exists>f \<in> set [''title__contains'', ''pk__startswith'']. album_matches f (Str ''the great'') j)))"
    by (simp add: title_widget_fields sp execute_albums albums_model)
  then obtain res where fq: "filter_queryset album_spawns title_widget ''the great'' None [] = Inr res"
    and rs: "\<And>r. r \<in> set (rows album_table album_joined album_matches res) \<longleftrightarrow>
       r \<in> set [escape, north, thriller, mixtape] \<and>
       (\<exists>j \<in> set (album_joined ''Album'' (set [''title__contains'', ''pk__startswith'']) r).
          (\<forall>tok \<in> set [''the'', ''great''].
             \<exists>f \<in> set [''title__contains'', ''pk__startswith'']. album_matches f (Str tok) j) \<or>
          (\<exists>f \<in> set [''title__contains'', ''pk__startswith'']. album_matches f (Str ''the great'') j))"
    by blast
  have "escape \<in> set (rows album_table album_joined album_matches res)"
    unfolding rs by (simp add: album_joined_def album_matches_def escape_def)
  moreover have "north \<in> set (rows album_table album_joined album_matches res)"
    unfolding rs by (simp add: album_joined_def album_matches_def north_def)
  moreover have "thriller \<notin> set (rows album_table album_joined album_matches res)"
    unfolding rs by (simp add: album_joined_def album_matches_def thriller_def)
  moreover have "mixtape \<notin> set (rows album_table album_joined album_matches res)"
    unfolding rs by (simp add: album_joined_def album_matches_def mixtape_def)
  moreover have "set (rows album_table album_joined album_matches res) \<subseteq>
      {escape, north, thriller, mixtape}"
    using rs by auto
  ultimately have 1: "set (rows album_table album_joined album_matches res) = {escape, north}"
    by auto
  have gb: "base_queryset genre_widget None = Inr (Some albums)"
    by (simp add: base_queryset_def get_queryset_def title_widget_def genre_widget_def)
  have gf: "search_fields genre_widget = [''genres__title__contains'']"
    by (simp add: genre_widget_def)
  have sp2: "split ''pop rock'' = [''pop'', ''rock'']"
    by (simp add: split_def isspace_def)
  from filter_queryset_selects [OF gb, of "''pop rock''" album_spawns "[]"
      album_table album_joined album_matches]
  have "\<exists>res2. filter_queryset album_spawns genre_widget ''pop rock'' None [] = Inr res2 \<and>
    (\<forall>r. r \<in> set (rows album_table album_joined album_matches res2) \<longleftrightarrow>
       r \<in> set [escape, north, thriller, mixtape] \<and>
       (\<exists>j \<in> set (album_joined ''Album'' (set [''genres__title__contains'']) r).
          (\<forall>tok \<in> set [''pop'', ''rock''].
             \<exists>f \<in> set [''genres__title__contains'']. album_matches f (Str tok) j) \<or>
          (\<exists>f \<in> set [''genres__title__contains'']. album_matches f (Str ''pop rock'') j)))"
    by (simp add: gf sp2 execute_albums albums_model)
  then obtain res2 where fq2: "filter_queryset album_spawns genre_widget ''pop rock'' None [] = Inr res2"
    and rs2: "\<And>r. r \<in> set (rows album_table album_joined album_matches res2) \<longleftrightarrow>
       r \<in> set [escape, north, thriller, mixtape] \<and>
       (\<exists>j \<in> set (album_joined ''Album'' (set [''genres__title__contains'']) r).
          (\<forall>tok \<in> set [''pop'', ''rock''].
             \<exists>f \<in> set [''genres__title__contains'']. album_matches f (Str tok) j) \<or>
          (\<exists>f \<in> set [''genres__title__contains'']. album_matches f (Str ''pop rock'') j))"
    by blast
  have "escape \<in> set (rows album_table album_joined album_matches res2)"
    unfolding rs2 by (simp add: album_joined_def album_matches_def escape_def)
  moreover have "north \<notin> set (rows album_table album_joined album_matches res2)"
    unfolding rs2 by (simp add: album_joined_def album_matches_def north_def)
  moreover have "thriller \<notin> set (rows album_table album_joined album_matches res2)"
    unfolding rs2 by (simp add: album_joined_def album_matches_def thriller_def)
  moreover have "mixtape \<notin> set (rows album_table album_joined album_matches res2)"
    unfolding rs2 by (simp add: album_joined_def album_matches_def mixtape_def)
  moreover have "set (rows album_table album_joined album_matches res2) \<subseteq>
      {escape, north, thriller, mixtape}"
    using rs2 by auto
  ultimately have 2: "set (rows album_table album_joined album_matches res2) = {escape}"
    by auto
  from fq 1 fq2 2 show ?thesis by blast
qed

text \<open>
  Claim C2. \<^verbatim>\<open>filter_queryset\<close> returns \<^verbatim>\<open>queryset.filter(select).distinct()\<close> if a
  search field (the term being non-empty) or a dependent field is a lookup for which
  \<^verbatim>\<open>lookup_spawns_duplicates\<close> holds, and the plain \<^verbatim>\<open>queryset.filter(select)\<close>
  otherwise. The distinct queryset runs to the rows of the plain one without
  repetitions; the plain filter leaves the distinct flag of the base query as it is.
\<close>

theorem filter_queryset_distinct:
  assumes "base_queryset w qa = Inr (Some qs)" and "search_fields w \<noteq> []"
  shows "\<exists>sel. filter_queryset spawns w term qa deps =
                 Inr (if (term \<noteq> [] \<and> (\<exists>f \<in> set (search_fields w). spawns (q_model (query qs)) f)) \<or>
                         (\<exists>k \<in> set (map fst deps). spawns (q_model (query qs)) k)
                      then distinct_qs (filter_qs qs sel) else filter_qs qs sel) \<and>
               rows db joined m (distinct_qs (filter_qs qs sel)) =
                 remdups (rows db joined m (filter_qs qs sel)) \<and>
               q_distinct (query (distinct_qs (filter_qs qs sel))) \<and>
               q_distinct (query (filter_qs qs sel)) = q_distinct (query qs)"
proof -
  from filter_queryset_select [OF assms, of spawns "term" deps m]
  obtain sel where
    fq: "filter_queryset spawns w term qa deps =
           Inr (if (term \<noteq> [] \<and> (\<exists>f \<in> set (search_fields w). spawns (q_model (query qs)) f)) \<or>
                   (\<exists>k \<in> set (map fst deps). spawns (q_model (query qs)) k)
                then distinct_qs (filter_qs qs sel) else filter_qs qs sel)"
    by blast
  have rc: "result_cache (filter_qs qs sel) = None"
    by (simp add: filter_qs_def)
  have "rows db joined m (distinct_qs (filter_qs qs sel)) =
          remdups (rows db joined m (filter_qs qs sel))"
    by (rule rows_distinct_qs [OF rc])
  moreover have "q_distinct (query (distinct_qs (filter_qs qs sel)))"
    by (simp add: distinct_qs_def)
  moreover have "q_distinct (query (filter_qs qs sel)) = q_distinct (query qs)"
    by (simp add: filter_qs_def)
  ultimately show ?thesis using fq by blast
qed

theorem filter_queryset_distinct_witness:
  "(\<exists>sel. filter_queryset album_spawns genre_widget ''rock'' None [] =
            Inr (distinct_qs (filter_qs albums sel)) \<and>
          rows album_table album_joined album_matches (filter_qs albums sel) =
            [escape, escape, north, mixtape] \<and>
          rows album_table album_joined album_matches (distinct_qs (filter_qs albums sel)) =
            [escape, north, mixtape]) \<and>
   (\<exists>sel. filter_queryset album_spawns title_widget ''great'' None [] =
            Inr (filter_qs albums sel) \<and>
          rows album_table album_joined album_matches (filter_qs albums sel) = [escape, north])"
proof -
  have gb: "base_queryset genre_widget None = Inr (Some albums)"
    by (simp add: base_queryset_def get_queryset_def title_widget_def genre_widget_def)
  have gf: "search_fields genre_widget = [''genres__title__contains'']"
    by (simp add: genre_widget_def)
  have ne: "escape \<noteq> north" "escape \<noteq> mixtape" "north \<noteq> mixtape"
    by (simp_all add: escape_def north_def mixtape_def)
  from filter_queryset_distinct [OF gb, of album_spawns "''rock''" "[]" album_table album_joined
      album_matches]
  obtain sel where
    fq: "filter_queryset album_spawns genre_widget ''rock'' None [] =
           Inr (distinct_qs (filter_qs albums sel))"
    and rd: "rows album_table album_joined album_matches (distinct_qs (filter_qs albums sel)) =
               remdups (rows album_table album_joined album_matches (filter_qs albums sel))"
    by (auto simp: gf album_spawns_def)
  have "filter_queryset album_spawns genre_widget ''rock'' None [] =
          Inr (distinct_qs (filter_qs albums
            (Node OR [Lookup ''genres__title__contains'' (Str ''rock''),
                      Lookup ''genres__title__contains'' (Str ''rock'')])))"
    by (simp add: filter_queryset_def gb get_search_fields_def gf search_block_def split_def
        isspace_def or_queries_def Q_kwargs_def q_or_def q_and_def combine_def Q_empty_def
        add_def album_spawns_def)
  with fq have "distinct_qs (filter_qs albums sel) =
      distinct_qs (filter_qs albums
        (Node OR [Lookup ''genres__title__contains'' (Str ''rock''),
                  Lookup ''genres__title__contains'' (Str ''rock'')]))"
    by simp
  then have sel: "sel = Node OR [Lookup ''genres__title__contains'' (Str ''rock''),
                      Lookup ''genres__title__contains'' (Str ''rock'')]"
    by (rule distinct_filter_qs_inject)
  have r1: "rows album_table album_joined album_matches (filter_qs albums sel) =
              [escape, escape, north, mixtape]"
    by (simp add: sel rows_def filter_qs_def execute_def select_rows_def albums_def all_qs_def
        album_table_def album_joined_def album_matches_def escape_def north_def thriller_def
        mixtape_def)
  from filter_queryset_distinct [OF title_widget_base, of album_spawns "''great''" "[]"
      album_table album_joined album_matches]
  obtain sel2 where
    fq2: "filter_queryset album_spawns title_widget ''great'' None [] = Inr (filter_qs albums sel2)"
    by (auto simp: title_widget_fields album_spawns_def)
  have "filter_queryset album_spawns title_widget ''great'' None [] =
          Inr (filter_qs albums
            (Node OR [Lookup ''title__contains'' (Str ''great''),
                      Lookup ''pk__startswith'' (Str ''great''),
                      Lookup ''title__contains'' (Str ''great''),
                      Lookup ''pk__startswith'' (Str ''great'')]))"
    by (simp add: filter_queryset_def title_widget_base get_search_fields_def title_widget_fields
        search_block_def split_def isspace_def or_queries_def Q_kwargs_def q_or_def q_and_def
        combine_def Q_empty_def add_def album_spawns_def)
  with fq2 have "filter_qs albums sel2 =
      filter_qs albums
        (Node OR [Lookup ''title__contains'' (Str ''great''),
                  Lookup ''pk__startswith'' (Str ''great''),
                  Lookup ''title__contains'' (Str ''great''),
                  Lookup ''pk__startswith'' (Str ''great'')])"
    by simp
  then have sel2: "sel2 = Node OR [Lookup ''title__contains'' (Str ''great''),
                      Lookup ''pk__startswith'' (Str ''great''),
                      Lookup ''title__contains'' (Str ''great''),
                      Lookup ''pk__startswith'' (Str ''great'')]"
    by (rule filter_qs_inject)
  have r2: "rows album_table album_joined album_matches (filter_qs albums sel2) = [escape, north]"
    by (simp add: sel2 rows_def filter_qs_def execute_def select_rows_def albums_def all_qs_def
        album_table_def album_joined_def album_matches_def escape_def north_def thriller_def
        mixtape_def)
  from fq rd r1 ne fq2 r2 show ?thesis by auto
qed

text \<open>
  Claim C3. The dependent-field constraints are combined with the search filter by AND,
  in the one \<^verbatim>\<open>filter()\<close> call: a row of the base query is returned iff one of its
  joined rows satisfies the search condition and every dependent-field lookup. So a
  row is returned only if it satisfies every dependent-field constraint; and if some
  dependent value matches no joined row of any row of the base query, the result is
  empty, whatever the term matches.
\<close>

theorem filter_queryset_dependent:
  assumes "base_queryset w qa = Inr (Some qs)" and "search_fields w \<noteq> []" and "deps \<noteq> []"
  shows "\<exists>res.
           filter_queryset spawns w term qa deps = Inr res \<and>
           (\<forall>r. r \<in> set (rows db joined m res) \<longleftrightarrow>
              r \<in> set (execute db joined m (query qs)) \<and>
              (\<exists>j \<in> set (joined (q_model (query qs))
                           ((if term = [] then {} else set (search_fields w)) \<union>
                            set (map fst deps)) r).
                 (term = [] \<or>
                  (split term \<noteq> [] \<and>
                   (\<forall>tok \<in> set (split term). \<exists>f \<in> set (search_fields w). m f (Str tok) j)) \<or>
                  (\<exists>f \<in> set (search_fields w). m f (Str term) j)) \<and>
                 (\<forall>(k, v) \<in> set deps. m k v j))) \<and>
           ((\<exists>(k, v) \<in> set deps.
               \<forall>r \<in> set (execute db joined m (query qs)).
                 \<forall>j \<in> set (joined (q_model (query qs))
                              ((if term = [] then {} else set (search_fields w)) \<union>
                               set (map fst deps)) r). \<not> m k v j) \<longrightarrow>
              rows db joined m res = [])"
proof -
  define ks where
    "ks = (if term = [] then {} else set (search_fields w)) \<union> set (map fst deps)"
  define P where "P j = (term = [] \<or>
                 (split term \<noteq> [] \<and>
                  (\<forall>tok \<in> set (split term). \<exists>f \<in> set (search_fields w). m f (Str tok) j)) \<or>
                 (\<exists>f \<in> set (search_fields w). m f (Str term) j))" for j
  from set_rows_filter_queryset [OF assms(1,2), of spawns "term" deps db joined m]
  obtain res where fq: "filter_queryset spawns w term qa deps = Inr res"
    and rs': "set (rows db joined m res) =
             {r \<in> set (execute db joined m (query qs)).
                (term = [] \<and> deps = []) \<or>
                (\<exists>j \<in> set (joined (q_model (query qs)) ks r).
                   P j \<and> (\<forall>(k, v) \<in> set deps. m k v j))}"
    unfolding P_def ks_def by blast
  have rs: "set (rows db joined m res) =
             {r \<in> set (execute db joined m (query qs)).
                \<exists>j \<in> set (joined (q_model (query qs)) ks r).
                   P j \<and> (\<forall>(k, v) \<in> set deps. m k v j)}"
    using rs' assms(3) by simp
  have a: "r \<in> set (rows db joined m res) \<longleftrightarrow>
              r \<in> set (execute db joined m (query qs)) \<and>
              (\<exists>j \<in> set (joined (q_model (query qs)) ks r).
                 P j \<and> (\<forall>(k, v) \<in> set deps. m k v j))" for r
    unfolding rs by simp
  have b: "rows db joined m res = []"
    if "\<exists>(k, v) \<in> set deps.
          \<forall>r \<in> set (execute db joined m (query qs)).
            \<forall>j \<in> set (joined (q_model (query qs)) ks r). \<not> m k v j"
  proof -
    from that obtain k v where kv: "(k, v) \<in> set deps"
      and no: "\<forall>r \<in> set (execute db joined m (query qs)).
                 \<forall>j \<in> set (joined (q_model (query qs)) ks r). \<not> m k v j"
      by blast
    show ?thesis
    proof (cases "rows db joined m res")
      case Nil
      then show ?thesis .
    next
      case (Cons r rest)
      then have "r \<in> set (rows db joined m res)" by simp
      with a obtain j where "r \<in> set (execute db joined m (query qs))"
        and "j \<in> set (joined (q_model (query qs)) ks r)"
        and "\<forall>(k, v) \<in> set deps. m k v j"
        by blast
      with kv no show ?thesis by blast
    qed
  qed
  from fq a b show ?thesis unfolding P_def ks_def by blast
qed

theorem filter_queryset_dependent_witness:
  "(\<exists>res. filter_queryset album_spawns title_widget ''great'' None [(''artist'', Str ''abba'')] =
            Inr res \<and>
          rows album_table album_joined album_matches res = []) \<and>
   (\<exists>res. filter_queryset album_spawns genre_widget ''rock'' None
            [(''genres__title__contains'', Str ''pop'')] = Inr res \<and>
          set (rows album_table album_joined album_matches res) = {escape})"
proof -
  have sf: "search_fields title_widget \<noteq> []"
    by (simp add: title_widget_fields)
  have d1: "[(''artist'', Str ''abba'')] \<noteq> ([] :: (string \<times> unit val) list)"
    by simp
  from filter_queryset_dependent [OF title_widget_base sf d1, of album_spawns "''great''"
      album_table album_joined album_matches]
  obtain res where
    fq: "filter_queryset album_spawns title_widget ''great'' None [(''artist'', Str ''abba'')] =
           Inr res"
    and e: "(\<exists>(k, v) \<in> set [(''artist'', Str ''abba'')].
              \<forall>r \<in> set (execute album_table album_joined album_matches (query albums)).
                \<forall>j \<in> set (album_joined (q_model (query albums))
                            ((if ''great'' = [] then {} else set (search_fields title_widget)) \<union>
                             set (map fst [(''artist'', Str ''abba'' :: unit val)])) r).
                  \<not> album_matches k v j) \<longrightarrow>
            rows album_table album_joined album_matches res = []"
    by blast
  have "\<exists>(k, v) \<in> set [(''artist'', Str ''abba'')].
              \<forall>r \<in> set (execute album_table album_joined album_matches (query albums)).
                \<forall>j \<in> set (album_joined (q_model (query albums))
                            ((if ''great'' = [] then {} else set (search_fields title_widget)) \<union>
                             set (map fst [(''artist'', Str ''abba'' :: unit val)])) r).
                  \<not> album_matches k v j"
    by (simp add: execute_albums albums_model title_widget_fields album_joined_def
        album_matches_def escape_def north_def thriller_def mixtape_def)
  with e have r: "rows album_table album_joined album_matches res = []" by blast
  have gb: "base_queryset genre_widget None = Inr (Some albums)"
    by (simp add: base_queryset_def get_queryset_def title_widget_def genre_widget_def)
  have gf: "search_fields genre_widget = [''genres__title__contains'']"
    by (simp add: genre_widget_def)
  have gs: "search_fields genre_widget \<noteq> []"
    by (simp add: gf)
  have d2: "[(''genres__title__contains'', Str ''pop'')] \<noteq> ([] :: (string \<times> unit val) list)"
    by simp
  have sp: "split ''rock'' = [''rock'']"
    by (simp add: split_def isspace_def)
  from filter_queryset_dependent [OF gb gs d2, of album_spawns "''rock''"
      album_table album_joined album_matches]
  have "\<exists>res2. filter_queryset album_spawns genre_widget ''rock'' None
            [(''genres__title__contains'', Str ''pop'')] = Inr res2 \<and>
    (\<forall>r. r \<in> set (rows album_table album_joined album_matches res2) \<longleftrightarrow>
       r \<in> set [escape, north, thriller, mixtape] \<and>
       (\<exists>j \<in> set (album_joined ''Album'' (set [''genres__title__contains'']) r).
          album_matches ''genres__title__contains'' (Str ''rock'') j \<and>
          album_matches ''genres__title__contains'' (Str ''pop'') j))"
    by (simp add: gf sp execute_albums albums_model) blast
  then obtain res2 where
    fq2: "filter_queryset album_spawns genre_widget ''rock'' None
            [(''genres__title__contains'', Str ''pop'')] = Inr res2"
    and rs2: "\<And>r. r \<in> set (rows album_table album_joined album_matches res2) \<longleftrightarrow>
       r \<in> set [escape, north, thriller, mixtape] \<and>
       (\<exists>j \<in> set (album_joined ''Album'' (set [''genres__title__contains'']) r).
          album_matches ''genres__title__contains'' (Str ''rock'') j \<and>
          album_matches ''genres__title__contains'' (Str ''pop'') j)"
    by blast
  have "escape \<in> set (rows album_table album_joined album_matches res2)"
    unfolding rs2 by (simp add: album_joined_def album_matches_def escape_def)
  moreover have "north \<notin> set (rows album_table album_joined album_matches res2)"
    unfolding rs2 by (simp add: album_joined_def album_matches_def north_def)
  moreover have "thriller \<notin> set (rows album_table album_joined album_matches res2)"
    unfolding rs2 by (simp add: album_joined_def album_matches_def thriller_def)
  moreover have "mixtape \<notin> set (rows album_table album_joined album_matches res2)"
    unfolding rs2 by (simp add: album_joined_def album_matches_def mixtape_def)
  moreover have "set (rows album_table album_joined album_matches res2) \<subseteq>
      {escape, north, thriller, mixtape}"
    using rs2 by auto
  ultimately have 2: "set (rows album_table album_joined album_matches res2) = {escape}"
    by auto
  from fq r fq2 2 show ?thesis by blast
qed

subsection \<open>Construction, rendering and the cache\<close>

text \<open>
  Claim C7. The constructor of a Heavy widget raises \<^verbatim>\<open>ValueError\<close> when neither
  \<^verbatim>\<open>data_view\<close> nor \<^verbatim>\<open>data_url\<close> (from the keyword arguments, else from the class)
  is declared, that is, when both are \<^verbatim>\<open>None\<close> or empty; when one of them is
  declared, it returns the widget. The error belongs to construction: \<^verbatim>\<open>render\<close>
  never raises it.
\<close>

theorem heavy_init_requires_url:
  "(\<not> truthy (pop (kw_data_view kw) (c_data_view c)) \<and>
    \<not> truthy (pop (kw_data_url kw) (c_data_url c)) \<longrightarrow>
      fst (heavy_init e c ch kw s) =
        Inl (ValueError ''You must either specify \"data_view\" or \"data_url\".'')) \<and>
   (truthy (pop (kw_data_view kw) (c_data_view c)) \<or>
    truthy (pop (kw_data_url kw) (c_data_url c)) \<longrightarrow>
      (\<exists>w. fst (heavy_init e c ch kw s) = Inr w \<and>
           data_view w = pop (kw_data_view kw) (c_data_view c) \<and>
           data_url w = pop (kw_data_url kw) (c_data_url c))) \<and>
   (\<forall>w s' msg. render e w s' \<noteq> Inl (ValueError msg))"
  by (simp add: heavy_init_def uuid4_def Let_def render_not_ValueError)

theorem heavy_init_requires_url_witness:
  "fst (heavy_init example_env HeavyTomSelectWidget None no_kwargs empty_world) =
     Inl (ValueError ''You must either specify \"data_view\" or \"data_url\".'') \<and>
   (\<exists>w. fst (heavy_init example_env ArtistDataViewWidget None no_kwargs empty_world) = Inr w \<and>
        data_view w = Some ''heavy_data_1'' \<and> data_url w = None) \<and>
   (\<exists>w. fst (heavy_init example_env HeavyTomSelectWidget None
                (no_kwargs\<lparr>kw_data_url := Some (Some ''/heavy_data_2/'')\<rparr>) empty_world) = Inr w \<and>
        data_view w = None \<and> data_url w = Some ''/heavy_data_2/'')"
proof -
  have a: "\<not> truthy (pop (kw_data_view no_kwargs) (c_data_view HeavyTomSelectWidget)) \<and>
           \<not> truthy (pop (kw_data_url no_kwargs) (c_data_url HeavyTomSelectWidget))"
    by (simp add: no_kwargs_def HeavyTomSelectWidget_def pop_def truthy_def)
  have b: "pop (kw_data_view no_kwargs) (c_data_view ArtistDataViewWidget) = Some ''heavy_data_1''"
    "pop (kw_data_url no_kwargs) (c_data_url ArtistDataViewWidget) = None"
    by (simp_all add: no_kwargs_def HeavyTomSelectWidget_def ArtistDataViewWidget_def pop_def)
  have c: "pop (kw_data_view (no_kwargs\<lparr>kw_data_url := Some (Some ''/heavy_data_2/'')\<rparr>))
             (c_data_view HeavyTomSelectWidget) = None"
    "pop (kw_data_url (no_kwargs\<lparr>kw_data_url := Some (Some ''/heavy_data_2/'')\<rparr>))
             (c_data_url HeavyTomSelectWidget) = Some ''/heavy_data_2/''"
    by (simp_all add: no_kwargs_def HeavyTomSelectWidget_def pop_def)
  from a heavy_init_requires_url [of no_kwargs HeavyTomSelectWidget example_env None empty_world]
  have 1: "fst (heavy_init example_env HeavyTomSelectWidget None no_kwargs empty_world) =
     Inl (ValueError ''You must either specify \"data_view\" or \"data_url\".'')"
    by blast
  from heavy_init_requires_url [of no_kwargs ArtistDataViewWidget example_env None empty_world]
  have 2: "\<exists>w. fst (heavy_init example_env ArtistDataViewWidget None no_kwargs empty_world) = Inr w \<and>
        data_view w = Some ''heavy_data_1'' \<and> data_url w = None"
    unfolding b truthy_def by auto
  from heavy_init_requires_url [of "no_kwargs\<lparr>kw_data_url := Some (Some ''/heavy_data_2/'')\<rparr>"
      HeavyTomSelectWidget example_env None empty_world]
  have 3: "\<exists>w. fst (heavy_init example_env HeavyTomSelectWidget None
                (no_kwargs\<lparr>kw_data_url := Some (Some ''/heavy_data_2/'')\<rparr>) empty_world) = Inr w \<and>
        data_view w = None \<and> data_url w = Some ''/heavy_data_2/''"
    unfolding c truthy_def by auto
  from 1 2 3 show ?thesis by blast
qed

text \<open>
  Claim C5. The endpoint answers not-found exactly when the cache has no descriptor
  under the key of the request's identifier, and then for every search term: the
  presence of the cache entry is the only thing that decides it.
\<close>

theorem response_endpoint_not_found:
  "(response_endpoint e search c req = NotFound \<longleftrightarrow>
      c (TOM_SELECT_CACHE_PREFIX e @ req_identifier req) = None) \<and>
   (c (TOM_SELECT_CACHE_PREFIX e @ req_identifier req) = None \<longrightarrow>
      (\<forall>t. response_endpoint e search c (req\<lparr>req_term := t\<rparr>) = NotFound))"
  by (simp add: response_endpoint_def split: option.splits)

theorem response_endpoint_not_found_witness:
  "response_endpoint example_env (\<lambda>d req. d) [''tomselect_uuid-'' \<mapsto> (1::nat)]
     \<lparr>req_identifier = ''uuid-i'', req_term = ''great'', req_dependent_values = ([] :: (string \<times> unit val) list),
      req_page = 1\<rparr> = NotFound \<and>
   response_endpoint example_env (\<lambda>d req. d) [''tomselect_uuid-'' \<mapsto> (1::nat)]
     \<lparr>req_identifier = ''uuid-'', req_term = ''great'', req_dependent_values = ([] :: (string \<times> unit val) list),
      req_page = 1\<rparr> = Found 1"
  using response_endpoint_not_found [of example_env "\<lambda>d req. d" "[''tomselect_uuid-'' \<mapsto> (1::nat)]"
      "\<lparr>req_identifier = ''uuid-i'', req_term = ''great'', req_dependent_values = ([] :: (string \<times> unit val) list), req_page = 1\<rparr>"]
  by (simp add: example_env_def response_endpoint_def)




text \<open>
  Claim C6. Every cache write of a Model widget stores, for the base query, the pair of
  \<^verbatim>\<open>queryset.none()\<close> and \<^verbatim>\<open>queryset.query\<close>: an empty queryset and the query
  definition. \<^verbatim>\<open>pickle\<close> evaluates the empty queryset when the cache stores it, so
  the stored queryset holds the empty list of rows; no row of the base query is stored,
  also when the widget's queryset has been evaluated. The stored queryset with the
  stored query put back into it still lists no row, and every queryset derived from it
  (\<^verbatim>\<open>filter\<close> gives a new, unevaluated queryset) runs the query of the base queryset
  again: with an empty condition it lists the rows of the base query. The other keys of
  the cache are left as they are.
\<close>

theorem model_set_to_cache_stores_query:
  assumes "kind w = Model" and "set_to_cache e w s = Inr s'"
  shows "\<exists>qs d. get_queryset w = Inr (Some qs) \<and>
           cache s' (get_cache_key e w) = Some (ModelEntry d) \<and>
           d_queryset d = ((none_qs qs)\<lparr>result_cache := Some []\<rparr>, query qs) \<and>
           rows db joined m (fst (d_queryset d)) = [] \<and>
           rows db joined m ((fst (d_queryset d))\<lparr>query := snd (d_queryset d)\<rparr>) = [] \<and>
           (\<forall>sel. rows db joined m
                    (filter_qs ((fst (d_queryset d))\<lparr>query := snd (d_queryset d)\<rparr>) sel) =
                  execute db joined m (query (filter_qs qs sel))) \<and>
           rows db joined m
             (filter_qs ((fst (d_queryset d))\<lparr>query := snd (d_queryset d)\<rparr>) Q_empty) =
             execute db joined m (query qs) \<and>
           (\<forall>k. k \<noteq> get_cache_key e w \<longrightarrow> cache s' k = cache s k)"
proof -
  from assms obtain qs url where qs: "get_queryset w = Inr (Some qs)"
    and url: "get_url e w = Inr url"
    and s': "s' = cache_set (get_cache_key e w)
                      (ModelEntry
                         \<lparr>d_queryset = (none_qs qs, query qs),
                          d_cls = cls_name w,
                          d_search_fields = search_fields w,
                          d_max_results = max_results w,
                          d_url = url,
                          d_dependent_fields = dependent_fields w\<rparr>) s"
    by (auto simp: set_to_cache_def model_set_to_cache_def
        split: sum.splits option.splits if_splits)
  define d where "d = \<lparr>d_queryset = ((none_qs qs)\<lparr>result_cache := Some []\<rparr>, query qs),
                          d_cls = cls_name w,
                          d_search_fields = search_fields w,
                          d_max_results = max_results w,
                          d_url = url,
                          d_dependent_fields = dependent_fields w\<rparr>"
  have a: "cache s' (get_cache_key e w) = Some (ModelEntry d)"
    by (simp add: s' d_def cache_set_def fetch_all_none_qs)
  have b: "d_queryset d = ((none_qs qs)\<lparr>result_cache := Some []\<rparr>, query qs)"
    by (simp add: d_def)
  have r: "rows db joined m (fst (d_queryset d)) = []"
    by (simp add: b rows_def)
  have r2: "rows db joined m ((fst (d_queryset d))\<lparr>query := snd (d_queryset d)\<rparr>) = []"
    by (simp add: b rows_def)
  have r3: "\<forall>sel. rows db joined m
                    (filter_qs ((fst (d_queryset d))\<lparr>query := snd (d_queryset d)\<rparr>) sel) =
                  execute db joined m (query (filter_qs qs sel))"
    by (simp add: b rows_def filter_qs_def)
  have r4: "rows db joined m
             (filter_qs ((fst (d_queryset d))\<lparr>query := snd (d_queryset d)\<rparr>) Q_empty) =
             execute db joined m (query qs)"
    by (simp add: b rows_filter_qs_empty Q_empty_def)
  have o: "\<forall>k. k \<noteq> get_cache_key e w \<longrightarrow> cache s' k = cache s k"
    by (simp add: s' cache_set_def)
  from qs a b r r2 r3 r4 o show ?thesis by blast
qed

theorem model_set_to_cache_stores_query_witness:
  "\<exists>d. result_cache evaluated_albums = Some [escape, north, thriller, mixtape] \<and>
       get_queryset (title_widget\<lparr>queryset := Some evaluated_albums\<rparr>) =
         Inr (Some evaluated_albums) \<and>
       cache (projr (set_to_cache example_env (title_widget\<lparr>queryset := Some evaluated_albums\<rparr>)
                constructed)) ''tomselect_uuid-0'' = Some (ModelEntry d) \<and>
       d_queryset d = ((none_qs evaluated_albums)\<lparr>result_cache := Some []\<rparr>, query albums) \<and>
       rows album_table album_joined album_matches (fst (d_queryset d)) = [] \<and>
       rows album_table album_joined album_matches
         ((fst (d_queryset d))\<lparr>query := snd (d_queryset d)\<rparr>) = [] \<and>
       rows album_table album_joined album_matches
         (filter_qs ((fst (d_queryset d))\<lparr>query := snd (d_queryset d)\<rparr>) Q_empty) =
         [escape, north, thriller, mixtape]"
proof -
  let ?w = "title_widget\<lparr>queryset := Some evaluated_albums\<rparr>"
  have k: "kind ?w = Model"
    by (simp add: title_widget_def)
  have q: "get_queryset ?w = Inr (Some evaluated_albums)"
    by (simp add: get_queryset_def)
  have u: "get_url example_env ?w = Inr ''/tomselect/fields/auto.json''"
    by (simp add: get_url_def title_widget_def truthy_def example_env_def)
  have p: "picklable ?w"
    by (simp add: title_widget_def)
  have "\<exists>s'. set_to_cache example_env ?w constructed = Inr s'"
    by (simp add: set_to_cache_def k model_set_to_cache_def q u p)
  then obtain s' where s': "set_to_cache example_env ?w constructed = Inr s'"
    by blast
  have key: "get_cache_key example_env ?w = ''tomselect_uuid-0''"
    by (simp add: get_cache_key_def example_env_def title_widget_def)
  have qe: "query evaluated_albums = query albums"
    by (simp add: evaluated_albums_def)
  have rc: "result_cache evaluated_albums = Some [escape, north, thriller, mixtape]"
    by (simp add: evaluated_albums_def)
  from model_set_to_cache_stores_query [OF k s', of album_table album_joined album_matches]
  obtain qs d where g: "get_queryset ?w = Inr (Some qs)"
    and c: "cache s' (get_cache_key example_env ?w) = Some (ModelEntry d)"
    and d: "d_queryset d = ((none_qs qs)\<lparr>result_cache := Some []\<rparr>, query qs)"
    and r1: "rows album_table album_joined album_matches (fst (d_queryset d)) = []"
    and r2: "rows album_table album_joined album_matches
               ((fst (d_queryset d))\<lparr>query := snd (d_queryset d)\<rparr>) = []"
    and r: "rows album_table album_joined album_matches
              (filter_qs ((fst (d_queryset d))\<lparr>query := snd (d_queryset d)\<rparr>) Q_empty) =
              execute album_table album_joined album_matches (query qs)"
    by blast
  from g q have qs: "qs = evaluated_albums" by simp
  from c have c': "cache (projr (set_to_cache example_env ?w constructed)) ''tomselect_uuid-0'' =
      Some (ModelEntry d)"
    by (simp add: key s')
  from d have d': "d_queryset d =
      ((none_qs evaluated_albums)\<lparr>result_cache := Some []\<rparr>, query albums)"
    by (simp add: qs qe)
  from r have r': "rows album_table album_joined album_matches
      (filter_qs ((fst (d_queryset d))\<lparr>query := snd (d_queryset d)\<rparr>) Q_empty) =
      [escape, north, thriller, mixtape]"
    by (simp only: qs qe execute_albums)
  from rc q c' d' r1 r2 r' show ?thesis by blast
qed

end
